theory Spec2Isabelle
  imports Complex_Main "HOL-Library.Sublist" "HOL-Library.AList"
begin

section \<open>JavaScript values as the server sees them\<close>

text \<open>
  The backend (server.js) is untyped JavaScript working on parsed JSON. Values are modelled
  by one datatype; \<open>JUndefined\<close> is the result of reading an absent property. Numbers are
  IEEE doubles in the source; the model keeps the distinctions the code observes (zero,
  NaN, equality with a literal) and represents every finite double by a rational.
  An object is an association list in property order; the first binding of a key counts.
\<close>

datatype jsnum = NaN | PosInf | NegInf | Fin rat

datatype jsval =
    JUndefined
  | JNull
  | JBool bool
  | JNum jsnum
  | JStr string
  | JArr "jsval list"
  | JObj "(string \<times> jsval) list"

text \<open>A thrown error: its \<open>message\<close> and, for a rejected HTTP call, \<open>response.data\<close>.\<close>

datatype exn = Exn (message: string) (response_data: jsval)

text \<open>
  Built-ins of the language and of its standard library are parameters of the model:
  the theorems hold for every implementation of them.
  \<^item> \<open>JSON_parse\<close>: \<open>JSON.parse\<close>, which throws on malformed text;
  \<^item> \<open>parseFloat\<close>: always returns a number, possibly NaN;
  \<^item> \<open>ToString_other\<close>: string conversion of a value that is not a string
    (template literals, string concatenation);
  \<^item> \<open>ToNumber_other\<close>: \<open>Number(v)\<close> for strings, arrays and objects;
  \<^item> \<open>err_to_string\<close>: string conversion of an error object;
  \<^item> \<open>type_error\<close>: the TypeError the engine raises (reading a property of
    \<open>undefined\<close>, calling what is not a function);
  \<^item> \<open>str_trim\<close>, \<open>toLowerCase\<close>: the string methods.
\<close>

record builtins =
  JSON_parse :: "string \<Rightarrow> exn + jsval"
  parseFloat :: "jsval \<Rightarrow> jsnum"
  ToString_other :: "jsval \<Rightarrow> string"
  ToNumber_other :: "jsval \<Rightarrow> jsnum"
  err_to_string :: "exn \<Rightarrow> string"
  type_error :: exn
  str_trim :: "string \<Rightarrow> string"
  toLowerCase :: "string \<Rightarrow> string"

fun truthy :: "jsval \<Rightarrow> bool" where
  "truthy JUndefined = False"
| "truthy JNull = False"
| "truthy (JBool b) = b"
| "truthy (JNum n) = (n \<noteq> NaN \<and> n \<noteq> Fin 0)"
| "truthy (JStr s) = (s \<noteq> [])"
| "truthy (JArr xs) = True"
| "truthy (JObj kvs) = True"

text \<open>\<open>a || b\<close> and \<open>a && b\<close> on values whose evaluation cannot throw.\<close>

definition js_or :: "jsval \<Rightarrow> jsval \<Rightarrow> jsval" where
  "js_or a b = (if truthy a then a else b)"

definition js_and :: "jsval \<Rightarrow> jsval \<Rightarrow> jsval" where
  "js_and a b = (if truthy a then b else a)"

definition nullish :: "jsval \<Rightarrow> bool" where
  "nullish v = (v = JUndefined \<or> v = JNull)"

text \<open>
  \<open>v.k\<close> for a receiver that is neither \<open>undefined\<close> nor \<open>null\<close>, and a key \<open>k\<close> that no
  prototype defines (all the keys the server reads are of this kind): own properties of
  an object, \<open>undefined\<close> on anything else.
\<close>

fun js_get :: "jsval \<Rightarrow> string \<Rightarrow> jsval" where
  "js_get (JObj kvs) k = (case map_of kvs k of Some v \<Rightarrow> v | None \<Rightarrow> JUndefined)"
| "js_get v k = JUndefined"

text \<open>\<open>v.k\<close> on any receiver: a TypeError on \<open>undefined\<close> and \<open>null\<close>.\<close>

definition js_get_strict :: "builtins \<Rightarrow> jsval \<Rightarrow> string \<Rightarrow> exn + jsval" where
  "js_get_strict rt v k = (if nullish v then Inl (type_error rt) else Inr (js_get v k))"

text \<open>\<open>v?.k\<close>\<close>

definition js_get_opt :: "jsval \<Rightarrow> string \<Rightarrow> jsval" where
  "js_get_opt v k = (if nullish v then JUndefined else js_get v k)"

text \<open>\<open>v[0]\<close> for a receiver that is neither \<open>undefined\<close> nor \<open>null\<close>.\<close>

fun js_first :: "jsval \<Rightarrow> jsval" where
  "js_first (JArr xs) = (case xs of [] \<Rightarrow> JUndefined | x # _ \<Rightarrow> x)"
| "js_first (JStr s) = (case s of [] \<Rightarrow> JUndefined | c # _ \<Rightarrow> JStr [c])"
| "js_first (JObj kvs) = js_get (JObj kvs) ''0''"
| "js_first v = JUndefined"

definition js_first_strict :: "builtins \<Rightarrow> jsval \<Rightarrow> exn + jsval" where
  "js_first_strict rt v = (if nullish v then Inl (type_error rt) else Inr (js_first v))"

text \<open>String conversion and \<open>Number(v)\<close>.\<close>

definition ToString :: "builtins \<Rightarrow> jsval \<Rightarrow> string" where
  "ToString rt v = (case v of JStr s \<Rightarrow> s | _ \<Rightarrow> ToString_other rt v)"

definition Number :: "builtins \<Rightarrow> jsval \<Rightarrow> jsnum" where
  "Number rt v =
     (case v of
        JNum n \<Rightarrow> n
      | JBool b \<Rightarrow> (if b then Fin 1 else Fin 0)
      | JNull \<Rightarrow> Fin 0
      | JUndefined \<Rightarrow> NaN
      | _ \<Rightarrow> ToNumber_other rt v)"

text \<open>\<open>err.message || err\<close> inside a string concatenation.\<close>

definition message_or_err :: "builtins \<Rightarrow> exn \<Rightarrow> string" where
  "message_or_err rt err = (if message err \<noteq> [] then message err else err_to_string rt err)"

text \<open>
  \<open>hay.indexOf(needle)\<close> and \<open>hay.lastIndexOf(needle)\<close> on strings, and the same methods
  on arrays (which compare elements with \<open>===\<close>); \<open>None\<close> is the source's \<open>-1\<close>.
\<close>

fun indexOf :: "'a list \<Rightarrow> 'a list \<Rightarrow> nat option" where
  "indexOf [] needle = (if needle = [] then Some 0 else None)"
| "indexOf (h # hay) needle =
     (if prefix needle (h # hay) then Some 0 else map_option Suc (indexOf hay needle))"

fun elemIndexOf :: "'a list \<Rightarrow> 'a \<Rightarrow> nat option" where
  "elemIndexOf [] x = None"
| "elemIndexOf (h # hay) x = (if h = x then Some 0 else map_option Suc (elemIndexOf hay x))"

fun lastIndexOf :: "'a list \<Rightarrow> 'a list \<Rightarrow> nat option" where
  "lastIndexOf [] needle = (if needle = [] then Some 0 else None)"
| "lastIndexOf (h # hay) needle =
     (case lastIndexOf hay needle of
        Some i \<Rightarrow> Some (Suc i)
      | None \<Rightarrow> (if prefix needle (h # hay) then Some 0 else None))"

fun elemLastIndexOf :: "'a list \<Rightarrow> 'a \<Rightarrow> nat option" where
  "elemLastIndexOf [] x = None"
| "elemLastIndexOf (h # hay) x =
     (case elemLastIndexOf hay x of
        Some i \<Rightarrow> Some (Suc i)
      | None \<Rightarrow> (if h = x then Some 0 else None))"

definition js_indexOf :: "builtins \<Rightarrow> jsval \<Rightarrow> string \<Rightarrow> exn + nat option" where
  "js_indexOf rt v needle =
     (case v of
        JStr s \<Rightarrow> Inr (indexOf s needle)
      | JArr xs \<Rightarrow> Inr (elemIndexOf xs (JStr needle))
      | _ \<Rightarrow> Inl (type_error rt))"

definition js_lastIndexOf :: "builtins \<Rightarrow> jsval \<Rightarrow> string \<Rightarrow> exn + nat option" where
  "js_lastIndexOf rt v needle =
     (case v of
        JStr s \<Rightarrow> Inr (lastIndexOf s needle)
      | JArr xs \<Rightarrow> Inr (elemLastIndexOf xs (JStr needle))
      | _ \<Rightarrow> Inl (type_error rt))"

text \<open>\<open>s.slice(a, b)\<close> for non-negative \<open>a\<close> and \<open>b\<close>: empty when \<open>b \<le> a\<close>.\<close>

definition slice :: "'a list \<Rightarrow> nat \<Rightarrow> nat \<Rightarrow> 'a list" where
  "slice s a b = take (b - a) (drop a s)"

definition js_slice :: "jsval \<Rightarrow> nat \<Rightarrow> nat \<Rightarrow> jsval" where
  "js_slice v a b =
     (case v of JStr s \<Rightarrow> JStr (slice s a b) | JArr xs \<Rightarrow> JArr (slice xs a b) | _ \<Rightarrow> v)"

text \<open>\<open>v.length\<close> for a receiver that is neither \<open>undefined\<close> nor \<open>null\<close>.\<close>

definition js_length :: "jsval \<Rightarrow> jsval" where
  "js_length v =
     (case v of
        JArr xs \<Rightarrow> JNum (Fin (of_nat (length xs)))
      | JStr s \<Rightarrow> JNum (Fin (of_nat (length s)))
      | _ \<Rightarrow> js_get v ''length'')"

text \<open>\<open>v.trim()\<close>: only strings have the method.\<close>

definition js_trim :: "builtins \<Rightarrow> jsval \<Rightarrow> exn + string" where
  "js_trim rt v = (case v of JStr s \<Rightarrow> Inr (str_trim rt s) | _ \<Rightarrow> Inl (type_error rt))"

text \<open>
  \<open>v.k = x\<close> for a receiver that is neither \<open>undefined\<close> nor \<open>null\<close>: an existing
  property keeps its place, a new one is appended. The file is not in strict mode, so
  the assignment to a primitive is ignored; a named property of an array is not
  represented (it is not part of the array's JSON).
\<close>

definition js_set :: "jsval \<Rightarrow> string \<Rightarrow> jsval \<Rightarrow> jsval" where
  "js_set v k x = (case v of JObj kvs \<Rightarrow> JObj (AList.update k x kvs) | _ \<Rightarrow> v)"

definition is_array :: "jsval \<Rightarrow> bool" where
  "is_array v = (case v of JArr xs \<Rightarrow> True | _ \<Rightarrow> False)"

definition is_number :: "jsval \<Rightarrow> bool" where
  "is_number v = (case v of JNum n \<Rightarrow> True | _ \<Rightarrow> False)"

section \<open>Helpers (server.js, lines 32 to 40)\<close>

text \<open>
  \<^verbatim>\<open>function stripBase64Prefix(b64) {
    if (!b64) return b64;
    const idx = b64.indexOf('base64,');
    return idx >= 0 ? b64.slice(idx + 7) : b64; }\<close>
  The argument comes from the request body, so it is any JSON value: strings and arrays
  have \<open>indexOf\<close> and \<open>slice\<close>, on any other truthy value the call raises a TypeError.
\<close>

definition stripBase64Prefix :: "builtins \<Rightarrow> jsval \<Rightarrow> exn + jsval" where
  "stripBase64Prefix rt b64 =
     (if \<not> truthy b64 then Inr b64
      else case b64 of
          JStr s \<Rightarrow>
            (case indexOf s ''base64,'' of
               Some idx \<Rightarrow> Inr (JStr (drop (idx + 7) s))
             | None \<Rightarrow> Inr b64)
        | JArr xs \<Rightarrow>
            (case elemIndexOf xs (JStr ''base64,'') of
               Some idx \<Rightarrow> Inr (JArr (drop (idx + 7) xs))
             | None \<Rightarrow> Inr b64)
        | _ \<Rightarrow> Inl (type_error rt))"

text \<open>
  \<^verbatim>\<open>function bufferToDataUrl(buffer, mime = 'image/jpeg')\<close>; the buffer is given by its
  base64 text, \<open>buffer.toString('base64')\<close>.
\<close>

definition bufferToDataUrl :: "string \<Rightarrow> string \<Rightarrow> string" where
  "bufferToDataUrl base64 mime = ''data:'' @ mime @ '';base64,'' @ base64"

text \<open>The base64 alphabets (standard and URL-safe) with padding.\<close>

definition is_base64_char :: "char \<Rightarrow> bool" where
  "is_base64_char c =
     (c \<in> set ''ABCDEFGHIJKLMNOPQRSTUVWXYZabcdefghijklmnopqrstuvwxyz0123456789+/=-_'')"

definition is_base64 :: "string \<Rightarrow> bool" where
  "is_base64 s = list_all is_base64_char s"

section \<open>Outbound calls\<close>

text \<open>
  Every outbound request of server.js is one constructor, carrying what the request
  depends on. The three model calls go to the same endpoint and differ in their prompt:
  the recognition prompt with an image URL, the nutrition instruction with an image URL,
  and the text-only prompt built from a food name.
\<close>

datatype call =
    VisionRecognition string
  | VisionNutrition string
  | ChatNutritionByName string
  | EdamamNutritionData string
  | EdamamParser string
  | FatSecretToken
  | FatSecretSearch string jsval
  | FatSecretDetail jsval jsval
  | OpenFoodFactsSearch string
  | SpoonacularGuess string
  | SpoonacularIngredientSearch string
  | SpoonacularIngredientInfo jsval

text \<open>
  The upstream services: what each call answers, either a rejection or the payload
  (\<open>res.data\<close> of the HTTP client, the response object of the model SDK).
\<close>

type_synonym world = "call \<Rightarrow> exn + jsval"

text \<open>
  An asynchronous function of the source is a computation that ends in a value or in a
  thrown error, together with the calls it made, in order. Each \<open>await\<close> is a bind.
\<close>

type_synonym 'a io = "(exn + 'a) \<times> call list"

definition io_return :: "'a \<Rightarrow> 'a io" where
  "io_return x = (Inr x, [])"

definition io_throw :: "exn \<Rightarrow> 'a io" where
  "io_throw e = (Inl e, [])"

definition io_lift :: "exn + 'a \<Rightarrow> 'a io" where
  "io_lift r = (r, [])"

definition io_call :: "world \<Rightarrow> call \<Rightarrow> jsval io" where
  "io_call w c = (w c, [c])"

definition io_bind :: "'a io \<Rightarrow> ('a \<Rightarrow> 'b io) \<Rightarrow> 'b io" where
  "io_bind m f =
     (case m of
        (Inl e, t) \<Rightarrow> (Inl e, t)
      | (Inr x, t) \<Rightarrow> (case f x of (r, t') \<Rightarrow> (r, t @ t')))"

definition io_catch :: "'a io \<Rightarrow> (exn \<Rightarrow> 'a io) \<Rightarrow> 'a io" where
  "io_catch m h =
     (case m of
        (Inl e, t) \<Rightarrow> (case h e of (r, t') \<Rightarrow> (r, t @ t'))
      | (Inr x, t) \<Rightarrow> (Inr x, t))"

text \<open>
  The recognition call, and the calls of the nutrition providers (every other call:
  the five name-based providers, the image-based estimate and the estimate by name).
\<close>

fun is_recognition_call :: "call \<Rightarrow> bool" where
  "is_recognition_call (VisionRecognition url) = True"
| "is_recognition_call c = False"

definition is_provider_call :: "call \<Rightarrow> bool" where
  "is_provider_call c = (\<not> is_recognition_call c)"

section \<open>The model-facing operations (server.js, lines 43 to 120)\<close>

text \<open>\<open>response.choices[0]?.message?.content\<close>\<close>

definition message_content :: "builtins \<Rightarrow> jsval \<Rightarrow> exn + jsval" where
  "message_content rt response =
     (case js_get_strict rt response ''choices'' of
        Inl e \<Rightarrow> Inl e
      | Inr choices \<Rightarrow>
          (case js_first_strict rt choices of
             Inl e \<Rightarrow> Inl e
           | Inr choice \<Rightarrow> Inr (js_get_opt (js_get_opt choice ''message'') ''content'')))"

definition analyzeWithOpenAI :: "builtins \<Rightarrow> world \<Rightarrow> jsval \<Rightarrow> string io" where
  "analyzeWithOpenAI rt w imageBase64 =
     io_catch
       (io_bind (io_lift (stripBase64Prefix rt imageBase64)) (\<lambda>base64Only.
        io_bind (io_call w (VisionRecognition
                   (''data:image/jpeg;base64,'' @ ToString rt base64Only))) (\<lambda>response.
        io_bind (io_lift (message_content rt response)) (\<lambda>content.
        io_bind (io_lift (js_trim rt (js_or content (JStr [])))) (\<lambda>text.
        if text = [] then io_throw (Exn ''Empty recognition result from OpenAI'' JUndefined)
        else io_return text)))))
       (\<lambda>err. io_throw (Exn (''OpenAI Vision failed: '' @ message_or_err rt err) JUndefined))"

text \<open>
  Lines 109 to 115 and 311 to 315 are the same statements up to the message of the error
  thrown when a brace is missing:
  \<^verbatim>\<open>const first = out.indexOf('{'); const last = out.lastIndexOf('}');
  if (first < 0 || last < 0) throw new Error(...);
  const jsonText = out.slice(first, last + 1);
  return JSON.parse(jsonText);\<close>
\<close>

definition parse_brace_span :: "builtins \<Rightarrow> exn \<Rightarrow> jsval \<Rightarrow> exn + jsval" where
  "parse_brace_span rt not_json out =
     (case js_indexOf rt out ''{'' of
        Inl e \<Rightarrow> Inl e
      | Inr firstIdx \<Rightarrow>
          (case js_lastIndexOf rt out ''}'' of
             Inl e \<Rightarrow> Inl e
           | Inr lastIdx \<Rightarrow>
               (case firstIdx of
                  None \<Rightarrow> Inl not_json
                | Some f \<Rightarrow>
                    (case lastIdx of
                       None \<Rightarrow> Inl not_json
                     | Some l \<Rightarrow> JSON_parse rt (ToString rt (js_slice out f (l + 1)))))))"

definition getNutritionFromOpenAIImage :: "builtins \<Rightarrow> world \<Rightarrow> jsval \<Rightarrow> jsval io" where
  "getNutritionFromOpenAIImage rt w imageBase64 =
     io_catch
       (io_bind (io_lift (stripBase64Prefix rt imageBase64)) (\<lambda>base64Only.
        io_bind (io_call w (VisionNutrition
                   (''data:image/jpeg;base64,'' @ ToString rt base64Only))) (\<lambda>response.
        io_bind (io_lift (message_content rt response)) (\<lambda>content.
        io_lift (parse_brace_span rt
          (Exn (''OpenAI nutrition output not JSON: '' @ ToString rt (js_or content (JStr [])))
             JUndefined)
          (js_or content (JStr [])))))))
       (\<lambda>err. io_throw
          (Exn (''OpenAI Nutrition image analysis failed: '' @ message_or_err rt err) JUndefined))"

text \<open>
  The span the two functions hand to \<open>JSON.parse\<close> when the model's text is a string:
  from the first opening brace to the last closing brace, both included.
\<close>

definition brace_span :: "string \<Rightarrow> string option" where
  "brace_span out =
     (case indexOf out ''{'' of
        None \<Rightarrow> None
      | Some f \<Rightarrow>
          (case lastIndexOf out ''}'' of
             None \<Rightarrow> None
           | Some l \<Rightarrow> Some (slice out f (l + 1))))"

section \<open>Nutrition providers (server.js, lines 125 to 320)\<close>

definition zero :: jsval where
  "zero = JNum (Fin 0)"

definition nutrition_record :: "jsval \<Rightarrow> jsval \<Rightarrow> jsval \<Rightarrow> jsval \<Rightarrow> jsval" where
  "nutrition_record calories protein carbs fat =
     JObj [(''calories'', calories), (''protein'', protein), (''carbs'', carbs), (''fat'', fat)]"

text \<open>A record is complete when each of its four fields is present.\<close>

definition complete_record :: "jsval \<Rightarrow> bool" where
  "complete_record r =
     (js_get r ''calories'' \<noteq> JUndefined \<and> js_get r ''protein'' \<noteq> JUndefined \<and>
      js_get r ''carbs'' \<noteq> JUndefined \<and> js_get r ''fat'' \<noteq> JUndefined)"

text \<open>Tab 1: nutrition analysis.\<close>

definition getNutritionEdamam1 :: "world \<Rightarrow> string \<Rightarrow> jsval io" where
  "getNutritionEdamam1 w foodName =
     io_catch
       (io_bind (io_call w (EdamamNutritionData foodName)) (\<lambda>res_data.
        let data = js_or res_data (JObj []);
            calories = js_or (js_get data ''calories'') zero;
            total = js_or (js_get data ''totalNutrients'') (JObj []);
            protein = js_or (js_and (js_get total ''PROCNT'')
                               (js_get (js_get total ''PROCNT'') ''quantity'')) zero;
            carbs = js_or (js_and (js_get total ''CHOCDF'')
                             (js_get (js_get total ''CHOCDF'') ''quantity'')) zero;
            fat = js_or (js_and (js_get total ''FAT'')
                           (js_get (js_get total ''FAT'') ''quantity'')) zero
        in io_return (nutrition_record calories protein carbs fat)))
       (\<lambda>err. io_throw (Exn ''Edamam Nutrition failed'' JUndefined))"

text \<open>
  Tab 2: food database parser. \<open>first_food lst\<close> is the expression
  \<open>lst && lst[0] && lst[0].food\<close>, which the source writes once for \<open>data.parsed\<close> and
  once for \<open>data.hints\<close>.
\<close>

definition first_food :: "jsval \<Rightarrow> jsval" where
  "first_food lst = js_and lst (js_and (js_first lst) (js_get (js_first lst) ''food''))"

text \<open>The record built from the selected food (lines 161 to 167).\<close>

definition edamam2_record :: "jsval \<Rightarrow> jsval" where
  "edamam2_record food =
     (let n = js_or (js_get food ''nutrients'') (JObj [])
      in nutrition_record
           (js_or (js_get n ''ENERC_KCAL'') zero)
           (js_or (js_get n ''PROCNT'') zero)
           (js_or (js_get n ''CHOCDF'') zero)
           (js_or (js_get n ''FAT'') zero))"

definition getNutritionEdamam2 :: "world \<Rightarrow> string \<Rightarrow> jsval io" where
  "getNutritionEdamam2 w foodName =
     io_catch
       (io_bind (io_call w (EdamamParser foodName)) (\<lambda>res_data.
        let data = js_or res_data (JObj []);
            food = js_or (first_food (js_get data ''parsed'')) (first_food (js_get data ''hints''))
        in if \<not> truthy food then io_throw (Exn ''Food not found in Edamam Food DB'' JUndefined)
           else io_return (edamam2_record food)))
       (\<lambda>err. io_throw (Exn ''Edamam FoodDB failed'' JUndefined))"

text \<open>
  Tab 3: token exchange, search, detail. The three expressions that decide whether a
  stage has failed are named: \<open>tokenRes.data && tokenRes.data.access_token\<close>, the
  computation of \<open>firstFood\<close> (lines 191 to 196) and that of \<open>serving\<close> (lines 205, 206).
\<close>

definition fatsecret_token :: "jsval \<Rightarrow> jsval" where
  "fatsecret_token tokenData = js_and tokenData (js_get tokenData ''access_token'')"

definition fatsecret_firstFood :: "jsval \<Rightarrow> jsval" where
  "fatsecret_firstFood searchData =
     (let foods = js_and searchData
                    (js_or (js_get searchData ''foods'') (js_get searchData ''food''))
      in if truthy foods then
           (if is_array (js_get foods ''food'') then js_first (js_get foods ''food'')
            else js_or (js_get foods ''food'') (js_first foods))
         else JUndefined)"

definition fatsecret_serving :: "jsval \<Rightarrow> jsval" where
  "fatsecret_serving detailData =
     (let foodDetail = js_and detailData (js_get detailData ''food'');
          servings = js_get foodDetail ''servings''
      in js_and foodDetail
           (js_and servings
              (js_and (js_get servings ''serving'') (js_first (js_get servings ''serving'')))))"

definition getNutritionFatSecret :: "builtins \<Rightarrow> world \<Rightarrow> string \<Rightarrow> jsval io" where
  "getNutritionFatSecret rt w foodName =
     io_catch
       (io_bind (io_call w FatSecretToken) (\<lambda>tokenData.
        let token = fatsecret_token tokenData
        in if \<not> truthy token then io_throw (Exn ''FatSecret token failed'' JUndefined)
           else
        io_bind (io_call w (FatSecretSearch foodName token)) (\<lambda>searchData.
        let firstFood = fatsecret_firstFood searchData
        in if \<not> truthy firstFood then io_throw (Exn ''FatSecret: no food found'' JUndefined)
           else
        let foodId = js_or (js_get firstFood ''food_id'') (js_get firstFood ''id'') in
        io_bind (io_call w (FatSecretDetail foodId token)) (\<lambda>detailData.
        let serving = fatsecret_serving detailData
        in if \<not> truthy serving then io_throw (Exn ''FatSecret: no serving info'' JUndefined)
           else io_return (nutrition_record
                  (js_or (JNum (parseFloat rt (js_get serving ''calories''))) zero)
                  (js_or (JNum (parseFloat rt (js_get serving ''protein''))) zero)
                  (js_or (JNum (parseFloat rt (js_get serving ''carbohydrate''))) zero)
                  (js_or (JNum (parseFloat rt (js_get serving ''fat''))) zero))))))
       (\<lambda>err. io_throw (Exn ''FatSecret failed'' JUndefined))"

text \<open>Tab 4: open grocery database.\<close>

definition getNutritionOpenFoodFacts :: "world \<Rightarrow> string \<Rightarrow> jsval io" where
  "getNutritionOpenFoodFacts w foodName =
     io_catch
       (io_bind (io_call w (OpenFoodFactsSearch foodName)) (\<lambda>res_data.
        let product = js_and res_data
                        (js_and (js_get res_data ''products'')
                           (js_first (js_get res_data ''products'')))
        in if \<not> truthy product then io_throw (Exn ''OpenFoodFacts: not found'' JUndefined)
           else
             let n = js_or (js_get product ''nutriments'') (JObj [])
             in io_return (nutrition_record
                  (js_or (js_or (js_get n ''energy-kcal'') (js_get n ''energy_kcal'')) zero)
                  (js_or (js_get n ''proteins'') zero)
                  (js_or (js_get n ''carbohydrates'') zero)
                  (js_or (js_get n ''fat'') zero))))
       (\<lambda>err. io_throw (Exn ''OpenFoodFacts failed'' JUndefined))"

text \<open>Tab 5: recipe nutrition estimator, with the ingredient fallback.\<close>

definition parseVal :: "builtins \<Rightarrow> jsval \<Rightarrow> jsval" where
  "parseVal rt v =
     (if \<not> truthy v then zero
      else if is_number v then v
      else if js_get v ''value'' \<noteq> JUndefined then JNum (parseFloat rt (js_get v ''value''))
      else if js_get v ''amount'' \<noteq> JUndefined then JNum (parseFloat rt (js_get v ''amount''))
      else zero)"

text \<open>The predicate \<open>x => x.name && x.name.toLowerCase().includes(name)\<close>, as a truth value.\<close>

definition name_matches :: "builtins \<Rightarrow> string \<Rightarrow> jsval \<Rightarrow> exn + bool" where
  "name_matches rt name x =
     (case js_get_strict rt x ''name'' of
        Inl e \<Rightarrow> Inl e
      | Inr nm \<Rightarrow>
          (if \<not> truthy nm then Inr False
           else case nm of
                  JStr s \<Rightarrow> Inr (indexOf (toLowerCase rt s) name \<noteq> None)
                | _ \<Rightarrow> Inl (type_error rt)))"

fun array_find :: "builtins \<Rightarrow> string \<Rightarrow> jsval list \<Rightarrow> exn + jsval" where
  "array_find rt name [] = Inr JUndefined"
| "array_find rt name (x # xs) =
     (case name_matches rt name x of
        Inl e \<Rightarrow> Inl e
      | Inr b \<Rightarrow> (if b then Inr x else array_find rt name xs))"

text \<open>The local function \<open>find\<close> of the fallback, with \<open>nutr\<close> passed explicitly.\<close>

definition find_nutrient :: "builtins \<Rightarrow> jsval \<Rightarrow> string \<Rightarrow> exn + jsval" where
  "find_nutrient rt nutr name =
     (case js_or nutr (JArr []) of
        JArr xs \<Rightarrow>
          (case array_find rt name xs of
             Inl e \<Rightarrow> Inl e
           | Inr n \<Rightarrow> Inr (if truthy n then js_get n ''amount'' else zero))
      | _ \<Rightarrow> Inl (type_error rt))"

definition getNutritionSpoonacular :: "builtins \<Rightarrow> world \<Rightarrow> string \<Rightarrow> jsval io" where
  "getNutritionSpoonacular rt w foodName =
     io_catch
       (io_bind (io_call w (SpoonacularGuess foodName)) (\<lambda>guessData.
        if truthy (js_and guessData
                     (js_or (js_get guessData ''calories'')
                            (JBool (js_get guessData ''calories'' = zero))))
        then io_return (nutrition_record
               (parseVal rt (js_get guessData ''calories''))
               (parseVal rt (js_get guessData ''protein''))
               (parseVal rt (js_get guessData ''carbs''))
               (parseVal rt (js_get guessData ''fat'')))
        else
        io_bind (io_call w (SpoonacularIngredientSearch foodName)) (\<lambda>searchData.
        let results = js_or (js_and searchData (js_get searchData ''results'')) (JArr [])
        in if \<not> truthy (js_length results)
           then io_throw (Exn ''Spoonacular: ingredient not found'' JUndefined)
           else
        io_bind (io_lift (js_get_strict rt (js_first results) ''id'')) (\<lambda>ingredientId.
        io_bind (io_call w (SpoonacularIngredientInfo ingredientId)) (\<lambda>infoData.
        let nutr = js_and infoData
                     (js_and (js_get infoData ''nutrition'')
                        (js_get (js_get infoData ''nutrition'') ''nutrients''))
        in
        io_bind (io_lift (find_nutrient rt nutr ''calories'')) (\<lambda>calories.
        io_bind (io_lift (find_nutrient rt nutr ''protein'')) (\<lambda>protein.
        io_bind (io_lift (find_nutrient rt nutr ''carbohydrate'')) (\<lambda>carbs.
        io_bind (io_lift (find_nutrient rt nutr ''fat'')) (\<lambda>fat.
        io_return (nutrition_record
          (js_or calories zero) (js_or protein zero) (js_or carbs zero) (js_or fat zero)))))))))))
       (\<lambda>err. io_throw
          (Exn (''Spoonacular failed: '' @
                ToString rt (js_or (js_get_opt (response_data err) ''message'')
                                   (JStr (message err)))) JUndefined))"

text \<open>Tab 6 by name.\<close>

definition getNutritionFromOpenAIByName :: "builtins \<Rightarrow> world \<Rightarrow> string \<Rightarrow> jsval io" where
  "getNutritionFromOpenAIByName rt w foodName =
     io_catch
       (io_bind (io_call w (ChatNutritionByName foodName)) (\<lambda>resp.
        io_bind (io_lift (message_content rt resp)) (\<lambda>content.
        io_lift (parse_brace_span rt
          (Exn ''OpenAI nutrition response not JSON'' JUndefined) (js_or content (JStr []))))))
       (\<lambda>err. io_throw (Exn ''OpenAI nutrition lookup failed'' JUndefined))"

section \<open>Routes (server.js, lines 327 to 394)\<close>

datatype http_response = Response (status: nat) (body: jsval)

definition error_body :: "string \<Rightarrow> jsval" where
  "error_body msg = JObj [(''error'', JStr msg)]"

text \<open>
  The \<open>try\<close>/\<open>catch\<close> around the body of a route: an error thrown inside is answered with
  status 500 and \<open>err.message || fallback\<close>.
\<close>

definition respond :: "http_response io \<Rightarrow> string \<Rightarrow> http_response \<times> call list" where
  "respond m fallback =
     (case m of
        (Inr r, t) \<Rightarrow> (r, t)
      | (Inl err, t) \<Rightarrow>
          (Response 500 (error_body (if message err \<noteq> [] then message err else fallback)), t))"

definition analysis :: "string \<Rightarrow> jsval \<Rightarrow> http_response" where
  "analysis foodName nutrition =
     Response 200 (JObj [(''foodName'', JStr foodName), (''nutrition'', nutrition)])"

text \<open>\<open>POST /api/analyze-image\<close>; \<open>req_body\<close> is the parsed JSON body.\<close>

definition analyze_image :: "builtins \<Rightarrow> world \<Rightarrow> jsval \<Rightarrow> http_response \<times> call list" where
  "analyze_image rt w req_body =
     respond
       (io_bind (io_lift (js_get_strict rt req_body ''image'')) (\<lambda>image.
        io_bind (io_lift (js_get_strict rt req_body ''tab'')) (\<lambda>tab.
        if \<not> truthy image \<or> \<not> truthy tab
        then io_return (Response 400 (error_body ''Missing image or tab''))
        else
        io_bind (analyzeWithOpenAI rt w image) (\<lambda>foodName.
        if Number rt tab = Fin 6 then
          io_bind (getNutritionFromOpenAIImage rt w image) (\<lambda>openaiNutrition.
          io_bind (io_lift (js_get_strict rt openaiNutrition ''foodName'')) (\<lambda>modelName.
          io_return (analysis foodName
            (if \<not> truthy modelName then js_set openaiNutrition ''foodName'' (JStr foodName)
             else openaiNutrition))))
        else if Number rt tab = Fin 1 then
          io_bind (getNutritionEdamam1 w foodName) (\<lambda>nutrition.
          io_return (analysis foodName nutrition))
        else if Number rt tab = Fin 2 then
          io_bind (getNutritionEdamam2 w foodName) (\<lambda>nutrition.
          io_return (analysis foodName nutrition))
        else if Number rt tab = Fin 3 then
          io_bind (getNutritionFatSecret rt w foodName) (\<lambda>nutrition.
          io_return (analysis foodName nutrition))
        else if Number rt tab = Fin 4 then
          io_bind (getNutritionOpenFoodFacts w foodName) (\<lambda>nutrition.
          io_return (analysis foodName nutrition))
        else if Number rt tab = Fin 5 then
          io_bind (getNutritionSpoonacular rt w foodName) (\<lambda>nutrition.
          io_return (analysis foodName nutrition))
        else io_return (Response 400 (error_body ''Invalid tab (must be 1-6)''))))))
       ''Failed to analyze image''"

text \<open>
  \<open>POST /api/openai/vision\<close>: the uploaded file, when there is one, is its buffer (given
  by its base64 text) and the content type the upload declares.
\<close>

record upload =
  buffer_base64 :: string
  mimetype :: string

definition openai_vision :: "builtins \<Rightarrow> world \<Rightarrow> upload option \<Rightarrow> http_response \<times> call list"
  where
  "openai_vision rt w file =
     respond
       (case file of
          None \<Rightarrow> io_return (Response 400 (error_body ''Missing file''))
        | Some f \<Rightarrow>
            io_bind (analyzeWithOpenAI rt w
                       (JStr (bufferToDataUrl (buffer_base64 f)
                                (if mimetype f \<noteq> [] then mimetype f else ''image/jpeg''))))
              (\<lambda>foodName. io_return (Response 200 (JObj [(''foodName'', JStr foodName)]))))
       ''Vision failed''"

section \<open>The specification's wording of the span extraction\<close>

text \<open>
  The specification describes the extraction as taking "the first balanced
  \<open>{...}\<close> span" of the text. \<open>spec_first_balanced_span\<close> follows these words: from the
  first opening brace to the closing brace that matches it. It is compared with
  \<open>brace_span\<close>, which is what the source computes.
\<close>

fun balanced_length :: "nat \<Rightarrow> string \<Rightarrow> nat option" where
  "balanced_length depth [] = None"
| "balanced_length depth (c # cs) =
     (if c = CHR ''{'' then map_option Suc (balanced_length (Suc depth) cs)
      else if c = CHR ''}'' then
        (if depth \<le> 1 then Some 1 else map_option Suc (balanced_length (depth - 1) cs))
      else map_option Suc (balanced_length depth cs))"

definition spec_first_balanced_span :: "string \<Rightarrow> string option" where
  "spec_first_balanced_span out =
     (case indexOf out ''{'' of
        None \<Rightarrow> None
      | Some f \<Rightarrow>
          (case balanced_length 0 (drop f out) of
             None \<Rightarrow> None
           | Some n \<Rightarrow> Some (take n (drop f out))))"

section \<open>Example upstreams\<close>

text \<open>
  A concrete runtime and concrete upstream answers, on which the theorems below are
  instantiated. \<open>example_JSON_parse\<close> and \<open>example_parseFloat\<close> agree with the built-ins on
  the texts the examples hand them.
\<close>

definition example_JSON_parse :: "string \<Rightarrow> exn + jsval" where
  \<open>example_JSON_parse s =
     (if s = ''{"calories":266,"protein":11,"carbs":33,"fat":10}'' then
        Inr (JObj [(''calories'', JNum (Fin 266)), (''protein'', JNum (Fin 11)),
                   (''carbs'', JNum (Fin 33)), (''fat'', JNum (Fin 10))])
      else if s = ''{"calories":52,"protein":0.3,"carbs":14}'' then
        Inr (JObj [(''calories'', JNum (Fin 52)), (''protein'', JNum (Fin (3 / 10))),
                   (''carbs'', JNum (Fin 14))])
      else Inl (Exn ''Unexpected token in JSON'' JUndefined))\<close>

definition example_parseFloat :: "jsval \<Rightarrow> jsnum" where
  "example_parseFloat v =
     (case v of
        JNum n \<Rightarrow> n
      | JStr s \<Rightarrow>
          (if s = ''266'' then Fin 266 else if s = ''11.4'' then Fin (57 / 5)
           else if s = ''33.0'' then Fin 33 else NaN)
      | _ \<Rightarrow> NaN)"

definition example_trim :: "string \<Rightarrow> string" where
  "example_trim s =
     rev (dropWhile (\<lambda>c. c = CHR '' '' \<or> c = CHR 0x0A) (rev
       (dropWhile (\<lambda>c. c = CHR '' '' \<or> c = CHR 0x0A) s)))"

definition example_rt :: builtins where
  "example_rt =
     \<lparr> JSON_parse = example_JSON_parse,
       parseFloat = example_parseFloat,
       ToString_other = (\<lambda>v. ''[object Object]''),
       ToNumber_other = (\<lambda>v. NaN),
       err_to_string = (\<lambda>e. ''Error''),
       type_error = Exn ''Cannot read properties of undefined'' JUndefined,
       str_trim = example_trim,
       toLowerCase = (\<lambda>s. s) \<rparr>"

text \<open>The response object of a chat completion whose single choice carries \<open>text\<close>.\<close>

definition chat_response :: "string \<Rightarrow> jsval" where
  "chat_response text =
     JObj [(''choices'',
            JArr [JObj [(''message'',
                         JObj [(''role'', JStr ''assistant''), (''content'', JStr text)])]])]"

fun example_world :: world where
  "example_world (VisionRecognition url) = Inr (chat_response ''pizza '')"
| \<open>example_world (VisionNutrition url) =
     Inr (chat_response ''Sure! {"calories":266,"protein":11,"carbs":33,"fat":10} Enjoy!'')\<close>
| \<open>example_world (ChatNutritionByName foodName) =
     Inr (chat_response ''{"calories":52,"protein":0.3,"carbs":14}'')\<close>
| "example_world (EdamamNutritionData query) =
     Inr (JObj [(''uri'', JStr ''http://www.edamam.com/ontologies/edamam.owl''),
                (''dietLabels'', JArr [])])"
| "example_world (EdamamParser ingr) =
     Inr (JObj [(''text'', JStr ingr),
                (''parsed'', JArr []),
                (''hints'',
                 JArr [JObj [(''food'',
                   JObj [(''label'', JStr ''Pizza''),
                         (''nutrients'',
                          JObj [(''ENERC_KCAL'', JNum (Fin 266)), (''PROCNT'', JNum (Fin 11)),
                                (''FAT'', JNum (Fin 10))])])]])])"
| "example_world FatSecretToken =
     Inr (JObj [(''access_token'', JStr ''t0k3n''), (''token_type'', JStr ''Bearer'')])"
| "example_world (FatSecretSearch expr token) =
     Inr (JObj [(''foods'', JObj [(''food'', JArr [JObj [(''food_id'', JStr ''33691'')]])])])"
| "example_world (FatSecretDetail food_id token) =
     Inr (JObj [(''food'',
            JObj [(''servings'',
              JObj [(''serving'',
                JArr [JObj [(''calories'', JStr ''266''), (''protein'', JStr ''11.4''),
                            (''carbohydrate'', JStr ''33.0'')]])])])])"
| "example_world (OpenFoodFactsSearch terms) =
     Inr (JObj [(''count'', JNum (Fin 0)), (''products'', JArr [])])"
| "example_world (SpoonacularGuess title) =
     Inl (Exn ''Request failed with status code 402''
            (JObj [(''status'', JStr ''failure''), (''message'', JStr ''Daily quota reached'')]))"
| "example_world (SpoonacularIngredientSearch query) = Inr (JObj [(''results'', JArr [])])"
| "example_world (SpoonacularIngredientInfo ingredient) = Inr (JObj [])"

text \<open>The same upstreams with one service changed.\<close>

definition world_token_rejected :: world where
  "world_token_rejected =
     example_world (FatSecretToken :=
       Inl (Exn ''Request failed with status code 401''
              (JObj [(''error'', JStr ''invalid_client'')])))"

definition world_no_search_hit :: world where
  "world_no_search_hit =
     (\<lambda>c. case c of
        FatSecretSearch expr token \<Rightarrow> Inr (JObj [(''foods'', JObj [(''total_results'', JStr ''0'')])])
      | _ \<Rightarrow> example_world c)"

definition world_no_serving :: world where
  "world_no_serving =
     (\<lambda>c. case c of
        FatSecretDetail food_id token \<Rightarrow>
          Inr (JObj [(''food'', JObj [(''food_id'', JStr ''33691''), (''food_name'', JStr ''Pizza'')])])
      | _ \<Rightarrow> example_world c)"

definition world_parsed_and_hints :: world where
  "world_parsed_and_hints =
     (\<lambda>c. case c of
        EdamamParser ingr \<Rightarrow>
          Inr (JObj [(''text'', JStr ingr),
                     (''parsed'',
                      JArr [JObj [(''food'',
                        JObj [(''label'', JStr ''Pizza, cheese''),
                              (''nutrients'',
                               JObj [(''ENERC_KCAL'', JNum (Fin 271)),
                                     (''PROCNT'', JNum (Fin (57 / 5))),
                                     (''CHOCDF'', JNum (Fin 33))])])]]),
                     (''hints'',
                      JArr [JObj [(''food'',
                        JObj [(''label'', JStr ''Pizza''),
                              (''nutrients'',
                               JObj [(''ENERC_KCAL'', JNum (Fin 266)), (''PROCNT'', JNum (Fin 11)),
                                     (''FAT'', JNum (Fin 10))])])]])])
      | _ \<Rightarrow> example_world c)"

definition world_no_parser_match :: world where
  "world_no_parser_match =
     (\<lambda>c. case c of
        EdamamParser ingr \<Rightarrow>
          Inr (JObj [(''text'', JStr ingr), (''parsed'', JArr []), (''hints'', JArr [])])
      | _ \<Rightarrow> example_world c)"

definition world_recognition_down :: world where
  "world_recognition_down =
     (\<lambda>c. case c of
        VisionRecognition url \<Rightarrow> Inl (Exn ''Connection error.'' JUndefined)
      | _ \<Rightarrow> example_world c)"

definition world_braces_in_prose :: world where
  \<open>world_braces_in_prose =
     (\<lambda>c. case c of
        VisionNutrition url \<Rightarrow>
          Inr (chat_response
            ''{"calories":266,"protein":11,"carbs":33,"fat":10} (values in {braces} are estimates)'')
      | _ \<Rightarrow> example_world c)\<close>

definition example_image :: string where
  "example_image = ''data:image/png;base64,iVBORw0KGgo=''"

definition example_request :: "rat \<Rightarrow> jsval" where
  "example_request tab = JObj [(''image'', JStr example_image), (''tab'', JNum (Fin tab))]"

section \<open>Basic facts\<close>

subsection \<open>Sequencing\<close>

lemma io_bind_lift_Inr: "io_bind (io_lift (Inr x)) f = f x"
  by (simp add: io_bind_def io_lift_def split: prod.splits)

lemma io_bind_lift_Inl: "io_bind (io_lift (Inl e)) f = (Inl e, [])"
  by (simp add: io_bind_def io_lift_def)

lemma io_bind_return: "io_bind (io_return x) f = f x"
  by (simp add: io_bind_def io_return_def split: prod.splits)

lemma io_bind_throw: "io_bind (io_throw e) f = (Inl e, [])"
  by (simp add: io_bind_def io_throw_def)

lemma io_bind_call:
  "io_bind (io_call w c) f =
     (case w c of Inl e \<Rightarrow> (Inl e, [c]) | Inr x \<Rightarrow> (fst (f x), c # snd (f x)))"
  by (simp add: io_bind_def io_call_def split: prod.splits sum.splits)

lemma io_bind_pair_Inr: "io_bind (Inr x, t) f = (fst (f x), t @ snd (f x))"
  by (simp add: io_bind_def split: prod.splits)

lemma io_bind_pair_Inl: "io_bind (Inl e, t) f = (Inl e, t)"
  by (simp add: io_bind_def)

lemma io_catch_pair_Inr: "io_catch (Inr x, t) h = (Inr x, t)"
  by (simp add: io_catch_def)

lemma io_catch_pair_Inl: "io_catch (Inl e, t) h = (fst (h e), t @ snd (h e))"
  by (simp add: io_catch_def split: prod.splits)

lemma fst_io_throw: "fst (io_throw e) = Inl e" and snd_io_throw: "snd (io_throw e) = []"
  by (simp_all add: io_throw_def)

lemma fst_io_return: "fst (io_return x) = Inr x" and snd_io_return: "snd (io_return x) = []"
  by (simp_all add: io_return_def)

lemma snd_io_bind:
  "snd (io_bind m f) = (case fst m of Inl e \<Rightarrow> snd m | Inr x \<Rightarrow> snd m @ snd (f x))"
  by (cases m) (simp add: io_bind_def split: prod.splits sum.splits)

lemma fst_io_bind:
  "fst (io_bind m f) = (case fst m of Inl e \<Rightarrow> Inl e | Inr x \<Rightarrow> fst (f x))"
  by (cases m) (simp add: io_bind_def split: prod.splits sum.splits)

subsection \<open>Searching in strings\<close>

lemma indexOf_subset: "indexOf hay needle = Some i \<Longrightarrow> set needle \<subseteq> set hay"
proof (induction hay arbitrary: i)
  case Nil
  then show ?case by (simp split: if_splits)
next
  case (Cons h hay)
  show ?case
  proof (cases "prefix needle (h # hay)")
    case True
    then show ?thesis by (rule set_mono_prefix)
  next
    case False
    with Cons.prems obtain j where "indexOf hay needle = Some j" by auto
    from Cons.IH[OF this] show ?thesis by auto
  qed
qed

lemma indexOf_absent: "c \<in> set needle \<Longrightarrow> c \<notin> set hay \<Longrightarrow> indexOf hay needle = None"
  using indexOf_subset by (cases "indexOf hay needle") auto

lemma prefix_nth_mem:
  assumes "prefix (n @ [c]) (pre @ n @ rest)" and "pre \<noteq> []"
  shows "c \<in> set pre \<union> set n"
proof -
  from assms(1) obtain zs where eq: "pre @ n @ rest = (n @ [c]) @ zs" by (auto simp: prefix_def)
  have "(pre @ n @ rest) ! length n = c" unfolding eq by (simp add: nth_append)
  moreover have "length n < length (pre @ n)" using assms(2) by (cases pre) auto
  then have "(pre @ n @ rest) ! length n \<in> set (pre @ n)"
    by (metis append.assoc nth_append nth_mem)
  ultimately show ?thesis by auto
qed

lemma indexOf_after_prefix:
  assumes "c \<notin> set pre" and "c \<notin> set n"
  shows "indexOf (pre @ n @ [c] @ post) (n @ [c]) = Some (length pre)"
  using assms
proof (induction pre)
  case Nil
  show ?case by (cases n) simp_all
next
  case (Cons p ps)
  have "\<not> prefix (n @ [c]) ((p # ps) @ n @ ([c] @ post))"
    using prefix_nth_mem[of n c "p # ps" "[c] @ post"] Cons.prems by auto
  with Cons show ?case by simp
qed

subsection \<open>Stripping the data URL prefix\<close>

lemma comma_not_base64: "\<not> is_base64_char (CHR '','')"
  by (simp add: is_base64_char_def)

lemma is_base64_no_comma: "is_base64 s \<Longrightarrow> CHR '','' \<notin> set s"
  using comma_not_base64 unfolding is_base64_def list_all_iff by blast

lemma strip_bare: "CHR '','' \<notin> set s \<Longrightarrow> stripBase64Prefix rt (JStr s) = Inr (JStr s)"
  by (simp add: stripBase64Prefix_def indexOf_absent[of "CHR '',''"])

lemma strip_at:
  "indexOf s ''base64,'' = Some i \<Longrightarrow> stripBase64Prefix rt (JStr s) = Inr (JStr (drop (i + 7) s))"
  by (cases s) (simp_all add: stripBase64Prefix_def)

lemma strip_data_url:
  assumes "CHR '','' \<notin> set mime"
  shows "stripBase64Prefix rt (JStr (''data:'' @ mime @ '';base64,'' @ p)) = Inr (JStr p)"
proof -
  define pre where "pre = ''data:'' @ mime @ '';''"
  define hay where "hay = pre @ ''base64'' @ [CHR '',''] @ p"
  have nopre: "CHR '','' \<notin> set pre" using assms by (simp add: pre_def)
  have "indexOf hay (''base64'' @ [CHR '','']) = Some (length pre)"
    unfolding hay_def by (rule indexOf_after_prefix[OF nopre]) simp
  then have "indexOf hay ''base64,'' = Some (length pre)" by simp
  then have "stripBase64Prefix rt (JStr hay) = Inr (JStr (drop (length pre + 7) hay))"
    by (rule strip_at)
  moreover have "drop (length pre + 7) hay = p" by (simp add: hay_def)
  moreover have "hay = ''data:'' @ mime @ '';base64,'' @ p" by (simp add: hay_def pre_def)
  ultimately show ?thesis by simp
qed


section \<open>Image codec\<close>

text \<open>
  Claim C6. Normalising a bare base64 string is a no-op, and normalising the data URL
  \<open>data:<mime>;base64,<payload>\<close> gives the same result as normalising the bare
  payload. A base64 string is a string over the base64 alphabet; a media type contains no
  comma (in a data URL the first comma ends the header).
\<close>

theorem stripBase64Prefix_idempotent_roundtrip:
  "(is_base64 b \<longrightarrow> stripBase64Prefix rt (JStr b) = Inr (JStr b)) \<and>
   (is_base64 p \<and> CHR '','' \<notin> set mime \<longrightarrow>
      stripBase64Prefix rt (JStr (''data:'' @ mime @ '';base64,'' @ p))
        = stripBase64Prefix rt (JStr p))"
proof (intro conjI impI)
  assume "is_base64 b"
  then show "stripBase64Prefix rt (JStr b) = Inr (JStr b)"
    by (intro strip_bare is_base64_no_comma)
next
  assume a: "is_base64 p \<and> CHR '','' \<notin> set mime"
  then have "stripBase64Prefix rt (JStr (''data:'' @ mime @ '';base64,'' @ p)) = Inr (JStr p)"
    by (intro strip_data_url) blast
  moreover from a have "stripBase64Prefix rt (JStr p) = Inr (JStr p)"
    by (intro strip_bare is_base64_no_comma) blast
  ultimately show "stripBase64Prefix rt (JStr (''data:'' @ mime @ '';base64,'' @ p))
        = stripBase64Prefix rt (JStr p)"
    by (rule trans[OF _ sym])
qed

theorem stripBase64Prefix_idempotent_roundtrip_witness:
  "is_base64 ''iVBORw0KGgo='' \<and> CHR '','' \<notin> set ''image/png'' \<and>
   stripBase64Prefix example_rt (JStr ''iVBORw0KGgo='') = Inr (JStr ''iVBORw0KGgo='') \<and>
   stripBase64Prefix example_rt (JStr ''data:image/png;base64,iVBORw0KGgo='')
     = stripBase64Prefix example_rt (JStr ''iVBORw0KGgo='')"
proof -
  have b: "is_base64 ''iVBORw0KGgo=''" by (simp add: is_base64_def is_base64_char_def)
  have m: "CHR '','' \<notin> set ''image/png''" by simp
  from stripBase64Prefix_idempotent_roundtrip[of "''iVBORw0KGgo=''" example_rt "''iVBORw0KGgo=''" "''image/png''"] b m
  show ?thesis by simp
qed


section \<open>Recognition and the analyze route\<close>

lemma snd_io_catch_throw:
  "snd (io_catch m (\<lambda>err. io_throw (h err))) = snd m"
  by (cases m) (simp add: io_catch_def io_throw_def split: sum.splits)

lemma fst_io_catch_throw:
  "fst (io_catch m (\<lambda>err. io_throw (h err))) = (case fst m of Inl e \<Rightarrow> Inl (h e) | Inr x \<Rightarrow> Inr x)"
  by (cases m) (simp add: io_catch_def io_throw_def split: sum.splits)

lemma snd_io_lift: "snd (io_lift r) = []" and fst_io_lift: "fst (io_lift r) = r"
  by (simp_all add: io_lift_def)

lemma snd_io_call: "snd (io_call w c) = [c]" and fst_io_call: "fst (io_call w c) = w c"
  by (simp_all add: io_call_def)

lemmas io_simps = snd_io_catch_throw fst_io_catch_throw snd_io_lift fst_io_lift snd_io_call
  fst_io_call snd_io_bind fst_io_bind fst_io_throw snd_io_throw fst_io_return snd_io_return

lemma analyze_trace:
  "snd (analyzeWithOpenAI rt w img) =
     (case stripBase64Prefix rt img of
        Inl e \<Rightarrow> []
      | Inr b \<Rightarrow> [VisionRecognition (''data:image/jpeg;base64,'' @ ToString rt b)])"
  by (simp add: analyzeWithOpenAI_def io_simps split: sum.splits)

lemma nutrition_image_trace:
  "snd (getNutritionFromOpenAIImage rt w img) =
     (case stripBase64Prefix rt img of
        Inl e \<Rightarrow> []
      | Inr b \<Rightarrow> [VisionNutrition (''data:image/jpeg;base64,'' @ ToString rt b)])"
  by (simp add: getNutritionFromOpenAIImage_def io_simps split: sum.splits)

lemma analyze_result_nonempty:
  "fst (analyzeWithOpenAI rt w img) = Inr name \<Longrightarrow> name \<noteq> []"
  by (auto simp add: analyzeWithOpenAI_def io_simps split: sum.splits if_splits)

lemma analyze_failure_message:
  "fst (analyzeWithOpenAI rt w img) = Inl err \<Longrightarrow>
     \<exists>cause. err = Exn (''OpenAI Vision failed: '' @ cause) JUndefined"
  by (auto simp add: analyzeWithOpenAI_def io_simps split: sum.splits if_splits)

lemma strip_string_ok: "\<exists>b. stripBase64Prefix rt (JStr s) = Inr (JStr b)"
  by (simp add: stripBase64Prefix_def split: option.splits)


lemma snd_respond: "snd (respond m fallback) = snd m"
  by (cases m) (simp add: respond_def split: sum.splits)

lemma fst_respond:
  "fst (respond m fallback) =
     (case fst m of
        Inr r \<Rightarrow> r
      | Inl err \<Rightarrow> Response 500 (error_body (if message err \<noteq> [] then message err else fallback)))"
  by (cases m) (simp add: respond_def split: sum.splits)

lemma truthy_not_nullish: "truthy v \<Longrightarrow> \<not> nullish v"
  by (auto simp: nullish_def)

lemma truthy_get_not_nullish: "truthy (js_get v k) \<Longrightarrow> \<not> nullish v"
  by (cases v) (auto simp: nullish_def)

lemma analyze_calls_are_recognition:
  "c \<in> set (snd (analyzeWithOpenAI rt w img)) \<Longrightarrow>
     \<exists>u. c = VisionRecognition (''data:image/jpeg;base64,'' @ u)"
  unfolding analyze_trace by (cases "stripBase64Prefix rt img") auto

lemma nutrition_image_calls:
  "c \<in> set (snd (getNutritionFromOpenAIImage rt w img)) \<Longrightarrow>
     \<exists>u. c = VisionNutrition (''data:image/jpeg;base64,'' @ u)"
  unfolding nutrition_image_trace by (cases "stripBase64Prefix rt img") auto

lemma analyze_image_trace_when_recognition_fails:
  assumes "fst (analyzeWithOpenAI rt w (js_get req_body ''image'')) = Inl err"
  shows "set (snd (analyze_image rt w req_body))
           \<subseteq> set (snd (analyzeWithOpenAI rt w (js_get req_body ''image'')))"
  using assms
  by (simp add: analyze_image_def snd_respond io_simps js_get_strict_def split: sum.splits)

lemma analyze_image_when_recognition_fails:
  assumes "fst (analyzeWithOpenAI rt w (js_get req_body ''image'')) = Inl err"
    and "truthy (js_get req_body ''image'')" and "truthy (js_get req_body ''tab'')"
  shows "analyze_image rt w req_body =
           (Response 500 (error_body (message err)),
            snd (analyzeWithOpenAI rt w (js_get req_body ''image'')))"
proof -
  have nn: "\<not> nullish req_body" using assms(2) by (rule truthy_get_not_nullish)
  obtain cause where "err = Exn (''OpenAI Vision failed: '' @ cause) JUndefined"
    using analyze_failure_message[OF assms(1)] by blast
  then have msg: "message err \<noteq> []" by simp
  show ?thesis
    using assms nn msg
    by (simp add: prod_eq_iff analyze_image_def snd_respond fst_respond io_simps js_get_strict_def)
qed


subsection \<open>Evaluation on the example upstreams\<close>

lemma example_strip: "stripBase64Prefix rt (JStr example_image) = Inr (JStr ''iVBORw0KGgo='')"
  using strip_data_url[of "''image/png''" rt "''iVBORw0KGgo=''"] by (simp add: example_image_def)

lemmas io_run = io_bind_lift_Inr io_bind_lift_Inl io_bind_return io_bind_throw io_bind_call
  io_bind_pair_Inr io_bind_pair_Inl io_catch_pair_Inr io_catch_pair_Inl
  fst_io_throw snd_io_throw fst_io_return snd_io_return

lemma example_content:
  "message_content rt (chat_response text) = Inr (JStr text)"
  by (simp add: message_content_def chat_response_def js_get_strict_def js_first_strict_def
      js_get_opt_def nullish_def)

lemma example_recognition:
  "analyzeWithOpenAI example_rt example_world (JStr example_image) =
     (Inr ''pizza'', [VisionRecognition ''data:image/jpeg;base64,iVBORw0KGgo=''])"
  by (simp add: analyzeWithOpenAI_def io_run example_strip ToString_def example_content
      js_or_def js_trim_def example_rt_def example_trim_def)

lemma example_recognition_down:
  "analyzeWithOpenAI example_rt world_recognition_down (JStr example_image) =
     (Inl (Exn ''OpenAI Vision failed: Connection error.'' JUndefined),
      [VisionRecognition ''data:image/jpeg;base64,iVBORw0KGgo=''])"
  by (simp add: analyzeWithOpenAI_def io_run example_strip ToString_def world_recognition_down_def
      message_or_err_def)

lemma example_request_fields:
  "js_get (example_request tab) ''image'' = JStr example_image"
  "js_get (example_request tab) ''tab'' = JNum (Fin tab)"
  by (simp_all add: example_request_def)


subsection \<open>A failing recognition ends the request\<close>

text \<open>
  Claim C5. In every run of the analyze route in which the recognition adapter fails, no
  call of a nutrition provider is made: every call on record is a recognition call. When
  image and tab are present, the request ends with status 500 and the recognition error's
  message, having made exactly the calls of the recognition adapter.
\<close>

theorem recognition_failure_is_terminal:
  assumes "fst (analyzeWithOpenAI rt w (js_get req_body ''image'')) = Inl err"
  shows "(\<forall>c \<in> set (snd (analyze_image rt w req_body)). \<not> is_provider_call c) \<and>
         (truthy (js_get req_body ''image'') \<and> truthy (js_get req_body ''tab'') \<longrightarrow>
            analyze_image rt w req_body =
              (Response 500 (error_body (message err)),
               snd (analyzeWithOpenAI rt w (js_get req_body ''image''))))"
proof (intro conjI ballI impI)
  fix c assume "c \<in> set (snd (analyze_image rt w req_body))"
  then have "c \<in> set (snd (analyzeWithOpenAI rt w (js_get req_body ''image'')))"
    using analyze_image_trace_when_recognition_fails[OF assms] by blast
  then obtain u where "c = VisionRecognition (''data:image/jpeg;base64,'' @ u)"
    using analyze_calls_are_recognition by blast
  then show "\<not> is_provider_call c" by (simp add: is_provider_call_def)
next
  assume "truthy (js_get req_body ''image'') \<and> truthy (js_get req_body ''tab'')"
  then show "analyze_image rt w req_body =
              (Response 500 (error_body (message err)),
               snd (analyzeWithOpenAI rt w (js_get req_body ''image'')))"
    using analyze_image_when_recognition_fails[OF assms] by blast
qed


theorem recognition_failure_is_terminal_witness:
  "fst (analyzeWithOpenAI example_rt world_recognition_down (js_get (example_request 3) ''image''))
     = Inl (Exn ''OpenAI Vision failed: Connection error.'' JUndefined) \<and>
   truthy (js_get (example_request 3) ''image'') \<and> truthy (js_get (example_request 3) ''tab'') \<and>
   list_all (\<lambda>c. \<not> is_provider_call c)
     (snd (analyze_image example_rt world_recognition_down (example_request 3))) \<and>
   analyze_image example_rt world_recognition_down (example_request 3) =
     (Response 500 (error_body ''OpenAI Vision failed: Connection error.''),
      [VisionRecognition ''data:image/jpeg;base64,iVBORw0KGgo=''])"
proof -
  have f: "fst (analyzeWithOpenAI example_rt world_recognition_down
                  (js_get (example_request 3) ''image''))
             = Inl (Exn ''OpenAI Vision failed: Connection error.'' JUndefined)"
    by (simp add: example_request_fields example_recognition_down)
  have t: "truthy (js_get (example_request 3) ''image'')" "truthy (js_get (example_request 3) ''tab'')"
    by (simp_all add: example_request_fields example_image_def)
  from recognition_failure_is_terminal[OF f] f t show ?thesis
    by (simp add: example_request_fields example_recognition_down list_all_iff)
qed


subsection \<open>A tab outside 1 to 6\<close>

lemma analyze_image_invalid_tab:
  assumes "truthy (js_get req_body ''image'')" and "truthy (js_get req_body ''tab'')"
    and "Number rt (js_get req_body ''tab'') \<notin> {Fin 1, Fin 2, Fin 3, Fin 4, Fin 5, Fin 6}"
  shows "analyze_image rt w req_body =
           (case fst (analyzeWithOpenAI rt w (js_get req_body ''image'')) of
              Inr foodName \<Rightarrow> Response 400 (error_body ''Invalid tab (must be 1-6)'')
            | Inl err \<Rightarrow> Response 500 (error_body (message err)),
            snd (analyzeWithOpenAI rt w (js_get req_body ''image'')))"
proof (cases "fst (analyzeWithOpenAI rt w (js_get req_body ''image''))")
  case (Inl err)
  then show ?thesis
    using analyze_image_when_recognition_fails[OF Inl assms(1,2)] by simp
next
  case (Inr foodName)
  have nn: "\<not> nullish req_body" using assms(1) by (rule truthy_get_not_nullish)
  show ?thesis
    using assms nn Inr
    by (simp add: prod_eq_iff analyze_image_def snd_respond fst_respond io_simps js_get_strict_def)
qed

lemma example_image_nonempty: "example_image \<noteq> []"
  by (simp add: example_image_def)

lemma example_request_not_nullish: "\<not> nullish (example_request tab)"
  by (simp add: example_request_def nullish_def)

lemmas example_request_simps = example_request_fields example_request_not_nullish
  example_image_nonempty

lemma example_invalid_tab_run:
  "analyze_image example_rt example_world (example_request 7) =
     (Response 400 (error_body ''Invalid tab (must be 1-6)''),
      [VisionRecognition ''data:image/jpeg;base64,iVBORw0KGgo=''])"
  by (simp add: analyze_image_def io_run js_get_strict_def example_request_simps
      example_recognition Number_def respond_def)

lemma example_invalid_tab_run_down:
  "analyze_image example_rt world_recognition_down (example_request 7) =
     (Response 500 (error_body ''OpenAI Vision failed: Connection error.''),
      [VisionRecognition ''data:image/jpeg;base64,iVBORw0KGgo=''])"
  by (simp add: analyze_image_def io_run js_get_strict_def example_request_simps
      example_recognition_down Number_def respond_def)


text \<open>
  Claim C1, as stated: a request whose tab is outside 1 to 6 is answered with a client
  error after zero network calls. The route looks at the tab only after the recognition
  call has returned: on the example upstreams the request with tab 7 is answered with
  status 400 after one recognition call, and with status 500 when that call fails.
\<close>

theorem invalid_tab_zero_calls_counterexample:
  "snd (analyze_image example_rt example_world (example_request 7)) \<noteq> [] \<and>
   analyze_image example_rt example_world (example_request 7) =
     (Response 400 (error_body ''Invalid tab (must be 1-6)''),
      [VisionRecognition ''data:image/jpeg;base64,iVBORw0KGgo='']) \<and>
   analyze_image example_rt world_recognition_down (example_request 7) =
     (Response 500 (error_body ''OpenAI Vision failed: Connection error.''),
      [VisionRecognition ''data:image/jpeg;base64,iVBORw0KGgo=''])"
  by (simp add: example_invalid_tab_run example_invalid_tab_run_down)



text \<open>
  Claim C1, amended: when image and tab are present and \<open>Number(tab)\<close> is none of 1 to 6,
  the calls of the request are exactly those of the recognition adapter (one recognition
  call when the image is a string) and none is a provider call; the answer is the client
  error 400 "Invalid tab (must be 1-6)" when recognition succeeds, and status 500 with the
  recognition error's message when it fails.
\<close>

theorem invalid_tab_rejected_after_recognition:
  assumes "truthy (js_get req_body ''image'')" and "truthy (js_get req_body ''tab'')"
    and "Number rt (js_get req_body ''tab'') \<notin> {Fin 1, Fin 2, Fin 3, Fin 4, Fin 5, Fin 6}"
  shows "snd (analyze_image rt w req_body)
           = snd (analyzeWithOpenAI rt w (js_get req_body ''image'')) \<and>
         (\<forall>c \<in> set (snd (analyze_image rt w req_body)). \<not> is_provider_call c) \<and>
         (\<forall>s. js_get req_body ''image'' = JStr s \<longrightarrow>
            (\<exists>u. snd (analyze_image rt w req_body)
                   = [VisionRecognition (''data:image/jpeg;base64,'' @ u)])) \<and>
         fst (analyze_image rt w req_body) =
           (case fst (analyzeWithOpenAI rt w (js_get req_body ''image'')) of
              Inr foodName \<Rightarrow> Response 400 (error_body ''Invalid tab (must be 1-6)'')
            | Inl err \<Rightarrow> Response 500 (error_body (message err)))"
proof -
  note run = analyze_image_invalid_tab[OF assms, of w]
  have tr: "snd (analyze_image rt w req_body)
              = snd (analyzeWithOpenAI rt w (js_get req_body ''image''))"
    by (simp add: run)
  have prov: "\<forall>c \<in> set (snd (analyze_image rt w req_body)). \<not> is_provider_call c"
  proof
    fix c assume "c \<in> set (snd (analyze_image rt w req_body))"
    then obtain u where "c = VisionRecognition (''data:image/jpeg;base64,'' @ u)"
      unfolding tr using analyze_calls_are_recognition by blast
    then show "\<not> is_provider_call c" by (simp add: is_provider_call_def)
  qed
  have one: "\<forall>s. js_get req_body ''image'' = JStr s \<longrightarrow>
            (\<exists>u. snd (analyze_image rt w req_body)
                   = [VisionRecognition (''data:image/jpeg;base64,'' @ u)])"
  proof (intro allI impI)
    fix s assume s: "js_get req_body ''image'' = JStr s"
    obtain b where "stripBase64Prefix rt (JStr s) = Inr (JStr b)"
      using strip_string_ok by blast
    then show "\<exists>u. snd (analyze_image rt w req_body)
                   = [VisionRecognition (''data:image/jpeg;base64,'' @ u)]"
      unfolding tr s analyze_trace by simp
  qed
  show ?thesis using tr prov one by (simp add: run)
qed

theorem invalid_tab_rejected_after_recognition_witness:
  "truthy (js_get (example_request 7) ''image'') \<and> truthy (js_get (example_request 7) ''tab'') \<and>
   Number example_rt (js_get (example_request 7) ''tab'')
     \<notin> {Fin 1, Fin 2, Fin 3, Fin 4, Fin 5, Fin 6} \<and>
   snd (analyze_image example_rt example_world (example_request 7))
     = [VisionRecognition ''data:image/jpeg;base64,iVBORw0KGgo=''] \<and>
   list_all (\<lambda>c. \<not> is_provider_call c)
     (snd (analyze_image example_rt example_world (example_request 7))) \<and>
   fst (analyze_image example_rt example_world (example_request 7))
     = Response 400 (error_body ''Invalid tab (must be 1-6)'')"
proof -
  have t: "truthy (js_get (example_request 7) ''image'')"
    "truthy (js_get (example_request 7) ''tab'')"
    by (simp_all add: example_request_simps)
  have n: "Number example_rt (js_get (example_request 7) ''tab'')
             \<notin> {Fin 1, Fin 2, Fin 3, Fin 4, Fin 5, Fin 6}"
    by (simp add: example_request_simps Number_def)
  from invalid_tab_rejected_after_recognition[OF t n, of example_world] t n show ?thesis
    by (simp add: example_request_simps example_recognition list_all_iff)
qed


subsection \<open>The image URL sent to the model\<close>

lemma openai_vision_trace:
  "snd (openai_vision rt w (Some f)) =
     snd (analyzeWithOpenAI rt w
            (JStr (bufferToDataUrl (buffer_base64 f)
                     (if mimetype f \<noteq> [] then mimetype f else ''image/jpeg''))))"
  by (simp add: openai_vision_def snd_respond io_simps split: sum.splits)

lemma openai_vision_no_file: "snd (openai_vision rt w None) = []"
  by (simp add: openai_vision_def snd_respond io_simps)

lemma analyze_trace_data_url:
  assumes "CHR '','' \<notin> set mime"
  shows "snd (analyzeWithOpenAI rt w (JStr (''data:'' @ mime @ '';base64,'' @ p)))
           = [VisionRecognition (''data:image/jpeg;base64,'' @ p)]"
  unfolding analyze_trace strip_data_url[OF assms] by (simp add: ToString_def)

lemma nutrition_image_trace_data_url:
  assumes "CHR '','' \<notin> set mime"
  shows "snd (getNutritionFromOpenAIImage rt w (JStr (''data:'' @ mime @ '';base64,'' @ p)))
           = [VisionNutrition (''data:image/jpeg;base64,'' @ p)]"
  unfolding nutrition_image_trace strip_data_url[OF assms] by (simp add: ToString_def)

lemma openai_vision_trace_mime:
  assumes "CHR '','' \<notin> set (mimetype f)"
  shows "snd (openai_vision rt w (Some f))
           = [VisionRecognition (''data:image/jpeg;base64,'' @ buffer_base64 f)]"
proof -
  define m where "m = (if mimetype f \<noteq> [] then mimetype f else ''image/jpeg'')"
  have "CHR '','' \<notin> set m" using assms by (simp add: m_def)
  then have "snd (analyzeWithOpenAI rt w (JStr (''data:'' @ m @ '';base64,'' @ buffer_base64 f)))
           = [VisionRecognition (''data:image/jpeg;base64,'' @ buffer_base64 f)]"
    by (rule analyze_trace_data_url)
  then show ?thesis
    unfolding openai_vision_trace bufferToDataUrl_def m_def .
qed


text \<open>
  Claim C10. Every call that the recognition adapter, the image-based nutrition adapter
  and the upload route make carries an image URL that begins with
  \<open>data:image/jpeg;base64,\<close>, for every input. A data URL with any media type is
  forwarded with its payload unchanged and the media type replaced by \<open>image/jpeg\<close>, and
  so is an upload whatever content type it declares.
\<close>

theorem model_calls_carry_jpeg_data_url:
  "(\<forall>c \<in> set (snd (analyzeWithOpenAI rt w img)).
      \<exists>u. c = VisionRecognition (''data:image/jpeg;base64,'' @ u)) \<and>
   (\<forall>c \<in> set (snd (getNutritionFromOpenAIImage rt w img)).
      \<exists>u. c = VisionNutrition (''data:image/jpeg;base64,'' @ u)) \<and>
   (\<forall>c \<in> set (snd (openai_vision rt w upl)).
      \<exists>u. c = VisionRecognition (''data:image/jpeg;base64,'' @ u)) \<and>
   (CHR '','' \<notin> set mime \<longrightarrow>
      snd (analyzeWithOpenAI rt w (JStr (''data:'' @ mime @ '';base64,'' @ p)))
        = [VisionRecognition (''data:image/jpeg;base64,'' @ p)] \<and>
      snd (getNutritionFromOpenAIImage rt w (JStr (''data:'' @ mime @ '';base64,'' @ p)))
        = [VisionNutrition (''data:image/jpeg;base64,'' @ p)]) \<and>
   (CHR '','' \<notin> set (mimetype f) \<longrightarrow>
      snd (openai_vision rt w (Some f))
        = [VisionRecognition (''data:image/jpeg;base64,'' @ buffer_base64 f)])"
proof (intro conjI ballI impI)
  fix c assume "c \<in> set (snd (analyzeWithOpenAI rt w img))"
  then show "\<exists>u. c = VisionRecognition (''data:image/jpeg;base64,'' @ u)"
    by (rule analyze_calls_are_recognition)
next
  fix c assume "c \<in> set (snd (getNutritionFromOpenAIImage rt w img))"
  then show "\<exists>u. c = VisionNutrition (''data:image/jpeg;base64,'' @ u)"
    by (rule nutrition_image_calls)
next
  fix c assume c: "c \<in> set (snd (openai_vision rt w upl))"
  show "\<exists>u. c = VisionRecognition (''data:image/jpeg;base64,'' @ u)"
  proof (cases upl)
    case None
    with c show ?thesis by (simp add: openai_vision_no_file)
  next
    case (Some f)
    with c show ?thesis
      unfolding Some openai_vision_trace by (intro analyze_calls_are_recognition)
  qed
next
  assume "CHR '','' \<notin> set mime"
  then show "snd (analyzeWithOpenAI rt w (JStr (''data:'' @ mime @ '';base64,'' @ p)))
        = [VisionRecognition (''data:image/jpeg;base64,'' @ p)]"
    by (rule analyze_trace_data_url)
next
  assume "CHR '','' \<notin> set mime"
  then show "snd (getNutritionFromOpenAIImage rt w (JStr (''data:'' @ mime @ '';base64,'' @ p)))
        = [VisionNutrition (''data:image/jpeg;base64,'' @ p)]"
    by (rule nutrition_image_trace_data_url)
next
  assume "CHR '','' \<notin> set (mimetype f)"
  then show "snd (openai_vision rt w (Some f))
        = [VisionRecognition (''data:image/jpeg;base64,'' @ buffer_base64 f)]"
    by (rule openai_vision_trace_mime)
qed

theorem model_calls_carry_jpeg_data_url_witness:
  "CHR '','' \<notin> set ''image/png'' \<and>
   snd (analyzeWithOpenAI example_rt example_world (JStr ''data:image/png;base64,iVBORw0KGgo=''))
     = [VisionRecognition ''data:image/jpeg;base64,iVBORw0KGgo=''] \<and>
   snd (getNutritionFromOpenAIImage example_rt example_world
          (JStr ''data:image/png;base64,iVBORw0KGgo=''))
     = [VisionNutrition ''data:image/jpeg;base64,iVBORw0KGgo=''] \<and>
   snd (openai_vision example_rt example_world
          (Some \<lparr>buffer_base64 = ''iVBORw0KGgo='', mimetype = ''image/png''\<rparr>))
     = [VisionRecognition ''data:image/jpeg;base64,iVBORw0KGgo='']"
  using model_calls_carry_jpeg_data_url[of example_rt example_world
      "JStr ''data:image/png;base64,iVBORw0KGgo=''"
      "Some \<lparr>buffer_base64 = ''iVBORw0KGgo='', mimetype = ''image/png''\<rparr>"
      "''image/png''" "''iVBORw0KGgo=''"
      "\<lparr>buffer_base64 = ''iVBORw0KGgo='', mimetype = ''image/png''\<rparr>"]
  by simp


section \<open>Extracting the JSON object from the model's reply\<close>

lemma indexOf_char_None: "indexOf s [c] = None \<longleftrightarrow> c \<notin> set s"
  by (induction s) auto

lemma indexOf_char_Some:
  "indexOf s [c] = Some i \<Longrightarrow> i < length s \<and> s ! i = c \<and> c \<notin> set (take i s)"
proof (induction s arbitrary: i)
  case Nil
  then show ?case by simp
next
  case (Cons h s)
  show ?case
  proof (cases "h = c")
    case True
    with Cons.prems show ?thesis by simp
  next
    case False
    with Cons.prems obtain j where j: "indexOf s [c] = Some j" "i = Suc j" by auto
    from Cons.IH[OF j(1)] False j(2) show ?thesis by simp
  qed
qed

lemma lastIndexOf_char_None: "lastIndexOf s [c] = None \<longleftrightarrow> c \<notin> set s"
  by (induction s) (auto split: option.splits)

lemma lastIndexOf_char_Some:
  "lastIndexOf s [c] = Some l \<Longrightarrow> l < length s \<and> s ! l = c \<and> c \<notin> set (drop (Suc l) s)"
proof (induction s arbitrary: l)
  case Nil
  then show ?case by simp
next
  case (Cons h s)
  show ?case
  proof (cases "lastIndexOf s [c]")
    case None
    with Cons.prems have "h = c" "l = 0" by (auto split: if_splits)
    moreover from None have "c \<notin> set s" by (simp add: lastIndexOf_char_None)
    ultimately show ?thesis by simp
  next
    case (Some j)
    with Cons.prems have "l = Suc j" by simp
    with Cons.IH[OF Some] show ?thesis by simp
  qed
qed

lemma brace_span_None:
  "brace_span out = None \<longleftrightarrow> CHR ''{'' \<notin> set out \<or> CHR ''}'' \<notin> set out"
proof -
  have a: "indexOf out ''{'' = None \<longleftrightarrow> CHR ''{'' \<notin> set out" by (rule indexOf_char_None)
  have b: "lastIndexOf out ''}'' = None \<longleftrightarrow> CHR ''}'' \<notin> set out"
    by (rule lastIndexOf_char_None)
  show ?thesis
    unfolding brace_span_def using a b
    by (cases "indexOf out ''{''"; cases "lastIndexOf out ''}''") auto
qed

lemma brace_span_Some:
  assumes "brace_span out = Some t"
  shows "\<exists>pre post. CHR ''{'' \<notin> set pre \<and> CHR ''}'' \<notin> set post \<and>
           ((out = pre @ t @ post \<and> t \<noteq> [] \<and> hd t = CHR ''{'' \<and> last t = CHR ''}'') \<or>
            (t = [] \<and> CHR ''}'' \<in> set pre \<and> CHR ''{'' \<in> set post))"
proof -
  from assms obtain f l where f: "indexOf out ''{'' = Some f"
    and l: "lastIndexOf out ''}'' = Some l" and t: "t = slice out f (l + 1)"
    by (auto simp: brace_span_def split: option.splits)
  from indexOf_char_Some[OF f] have f': "f < length out" "out ! f = CHR ''{''"
    "CHR ''{'' \<notin> set (take f out)" by auto
  from lastIndexOf_char_Some[OF l] have l': "l < length out" "out ! l = CHR ''}''"
    "CHR ''}'' \<notin> set (drop (Suc l) out)" by auto
  have ne: "f \<noteq> l" using f'(2) l'(2) by auto
  show ?thesis
  proof (cases "f < l")
    case True
    have t': "t = take (Suc l - f) (drop f out)" by (simp add: t slice_def)
    have len: "length t = Suc l - f" using l'(1) True by (simp add: t')
    have split: "out = take f out @ t @ drop (Suc l) out"
    proof -
      have "drop f out = take (Suc l - f) (drop f out) @ drop (Suc l - f) (drop f out)"
        by (rule append_take_drop_id[symmetric])
      moreover have "drop (Suc l - f) (drop f out) = drop (Suc l) out"
        using True by simp
      ultimately have "drop f out = t @ drop (Suc l) out" by (simp add: t')
      then have "take f out @ drop f out = take f out @ t @ drop (Suc l) out" by simp
      then show ?thesis by simp
    qed
    have tne: "t \<noteq> []" using len True by auto
    have "hd t = out ! f" using f'(1) True l'(1) by (simp add: t' hd_drop_conv_nth)
    then have hd: "hd t = CHR ''{''" by (simp add: f'(2))
    have "last t = t ! (l - f)" using len tne by (simp add: last_conv_nth)
    also have "\<dots> = out ! l" using True l'(1) by (simp add: t')
    finally have la: "last t = CHR ''}''" by (simp add: l'(2))
    show ?thesis
      using f'(3) l'(3) split tne hd la by blast
  next
    case False
    with ne have lf: "l < f" by simp
    then have "t = []" by (simp add: t slice_def)
    moreover have "CHR ''}'' \<in> set (take f out)"
      using lf l' by (metis in_set_conv_nth length_take min_less_iff_conj nth_take)
    moreover have "CHR ''{'' \<in> set (drop (Suc l) out)"
    proof -
      have "drop (Suc l) out ! (f - Suc l) = out ! f" using lf f'(1) by simp
      moreover have "f - Suc l < length (drop (Suc l) out)" using lf f'(1) by simp
      ultimately show ?thesis using f'(2) by (metis nth_mem)
    qed
    ultimately show ?thesis using f'(3) l'(3) by blast
  qed
qed

lemma parse_brace_span_string:
  "parse_brace_span rt not_json (JStr out) =
     (case brace_span out of None \<Rightarrow> Inl not_json | Some t \<Rightarrow> JSON_parse rt t)"
  by (simp add: parse_brace_span_def brace_span_def js_indexOf_def js_lastIndexOf_def
      js_slice_def ToString_def split: option.splits)


lemma nutrition_image_result:
  assumes "stripBase64Prefix rt img = Inr b"
    and "w (VisionNutrition (''data:image/jpeg;base64,'' @ ToString rt b)) = Inr response"
    and "message_content rt response = Inr (JStr reply)"
  shows "getNutritionFromOpenAIImage rt w img =
           (case brace_span reply of
              None \<Rightarrow>
                Inl (Exn (''OpenAI Nutrition image analysis failed: '' @
                          ''OpenAI nutrition output not JSON: '' @ reply) JUndefined)
            | Some t \<Rightarrow>
                (case JSON_parse rt t of
                   Inl e \<Rightarrow>
                     Inl (Exn (''OpenAI Nutrition image analysis failed: '' @ message_or_err rt e)
                            JUndefined)
                 | Inr v \<Rightarrow> Inr v),
            [VisionNutrition (''data:image/jpeg;base64,'' @ ToString rt b)])"
proof -
  have out: "js_or (JStr reply) (JStr []) = JStr reply" by (simp add: js_or_def)
  define not_json where
    "not_json = Exn (''OpenAI nutrition output not JSON: '' @ ToString rt (JStr reply)) JUndefined"
  have body:
    "io_bind (io_lift (stripBase64Prefix rt img)) (\<lambda>base64Only.
       io_bind (io_call w (VisionNutrition
                  (''data:image/jpeg;base64,'' @ ToString rt base64Only))) (\<lambda>response.
       io_bind (io_lift (message_content rt response)) (\<lambda>content.
       io_lift (parse_brace_span rt
         (Exn (''OpenAI nutrition output not JSON: '' @ ToString rt (js_or content (JStr [])))
            JUndefined)
         (js_or content (JStr []))))))
     = (parse_brace_span rt not_json (JStr reply),
        [VisionNutrition (''data:image/jpeg;base64,'' @ ToString rt b)])"
    using assms by (simp add: io_run out fst_io_lift snd_io_lift not_json_def)
  show ?thesis
    unfolding getNutritionFromOpenAIImage_def body parse_brace_span_string
    by (simp add: io_catch_def io_throw_def not_json_def ToString_def message_or_err_def
        split: option.splits sum.splits)
qed

lemma example_brace_span:
  \<open>brace_span ''Sure! {"calories":266,"protein":11,"carbs":33,"fat":10} Enjoy!''
     = Some ''{"calories":266,"protein":11,"carbs":33,"fat":10}''\<close>
  by (simp add: brace_span_def slice_def)

lemma example_parse_full:
  \<open>JSON_parse example_rt ''{"calories":266,"protein":11,"carbs":33,"fat":10}'' =
     Inr (JObj [(''calories'', JNum (Fin 266)), (''protein'', JNum (Fin 11)),
                (''carbs'', JNum (Fin 33)), (''fat'', JNum (Fin 10))])\<close>
  by (simp add: example_rt_def example_JSON_parse_def)

lemma example_nutrition_image:
  "getNutritionFromOpenAIImage example_rt example_world (JStr example_image) =
     (Inr (JObj [(''calories'', JNum (Fin 266)), (''protein'', JNum (Fin 11)),
                 (''carbs'', JNum (Fin 33)), (''fat'', JNum (Fin 10))]),
      [VisionNutrition ''data:image/jpeg;base64,iVBORw0KGgo=''])"
proof -
  have b: \<open>example_world (VisionNutrition
       (''data:image/jpeg;base64,'' @ ToString example_rt (JStr ''iVBORw0KGgo='')))
     = Inr (chat_response ''Sure! {"calories":266,"protein":11,"carbs":33,"fat":10} Enjoy!'')\<close>
    by simp
  show ?thesis
    unfolding nutrition_image_result[where w = example_world, OF example_strip b example_content]
    by (simp add: ToString_def example_brace_span example_parse_full)
qed

lemma example_braces_in_prose_span:
  \<open>brace_span
     ''{"calories":266,"protein":11,"carbs":33,"fat":10} (values in {braces} are estimates)''
     = Some ''{"calories":266,"protein":11,"carbs":33,"fat":10} (values in {braces}''\<close>
  by (simp add: brace_span_def slice_def)


text \<open>
  Claim C7, as stated: the image-based nutrition operation extracts the first balanced
  \<open>{...}\<close> span of the reply and parses it. On a reply whose prose after the object
  contains braces, the first balanced span is the object and parses, but the source hands
  \<open>JSON.parse\<close> the text up to the last closing brace of the reply, and the operation
  fails.
\<close>

theorem first_balanced_span_counterexample:
  \<open>spec_first_balanced_span
     ''{"calories":266,"protein":11,"carbs":33,"fat":10} (values in {braces} are estimates)''
     = Some ''{"calories":266,"protein":11,"carbs":33,"fat":10}'' \<and>
   brace_span
     ''{"calories":266,"protein":11,"carbs":33,"fat":10} (values in {braces} are estimates)''
     = Some ''{"calories":266,"protein":11,"carbs":33,"fat":10} (values in {braces}'' \<and>
   \<not> isl (JSON_parse example_rt ''{"calories":266,"protein":11,"carbs":33,"fat":10}'') \<and>
   isl (fst (getNutritionFromOpenAIImage example_rt world_braces_in_prose (JStr example_image)))\<close>
proof -
  have b: \<open>world_braces_in_prose (VisionNutrition
       (''data:image/jpeg;base64,'' @ ToString example_rt (JStr ''iVBORw0KGgo='')))
     = Inr (chat_response
         ''{"calories":266,"protein":11,"carbs":33,"fat":10} (values in {braces} are estimates)'')\<close>
    by (simp add: world_braces_in_prose_def)
  have run: "isl (fst (getNutritionFromOpenAIImage example_rt world_braces_in_prose
                        (JStr example_image)))"
    unfolding nutrition_image_result[where w = world_braces_in_prose,
        OF example_strip b example_content]
    by (simp add: example_braces_in_prose_span example_rt_def example_JSON_parse_def)
  have spec: \<open>spec_first_balanced_span
     ''{"calories":266,"protein":11,"carbs":33,"fat":10} (values in {braces} are estimates)''
     = Some ''{"calories":266,"protein":11,"carbs":33,"fat":10}''\<close>
    by (simp add: spec_first_balanced_span_def)
  show ?thesis
    using run spec by (simp add: example_braces_in_prose_span example_parse_full)
qed


text \<open>
  Claim C7, amended: for every reply, the operation parses the span from the first
  opening brace to the last closing brace of the reply, both included (prose before and
  after it is dropped; the span is empty when the last closing brace comes before the
  first opening brace). It fails, with the one error kind of the operation, exactly when
  the reply has no opening brace, or no closing brace, or \<open>JSON.parse\<close> rejects the span.
\<close>

theorem image_nutrition_parses_first_to_last_brace:
  assumes "stripBase64Prefix rt img = Inr b"
    and "w (VisionNutrition (''data:image/jpeg;base64,'' @ ToString rt b)) = Inr response"
    and "message_content rt response = Inr (JStr reply)"
  shows "fst (getNutritionFromOpenAIImage rt w img) =
           (case brace_span reply of
              None \<Rightarrow>
                Inl (Exn (''OpenAI Nutrition image analysis failed: '' @
                          ''OpenAI nutrition output not JSON: '' @ reply) JUndefined)
            | Some t \<Rightarrow>
                (case JSON_parse rt t of
                   Inl e \<Rightarrow>
                     Inl (Exn (''OpenAI Nutrition image analysis failed: '' @ message_or_err rt e)
                            JUndefined)
                 | Inr v \<Rightarrow> Inr v)) \<and>
         (isl (fst (getNutritionFromOpenAIImage rt w img)) \<longleftrightarrow>
            CHR ''{'' \<notin> set reply \<or> CHR ''}'' \<notin> set reply \<or>
            (\<exists>t. brace_span reply = Some t \<and> isl (JSON_parse rt t))) \<and>
         (\<forall>t. brace_span reply = Some t \<longrightarrow>
            (\<exists>pre post. CHR ''{'' \<notin> set pre \<and> CHR ''}'' \<notin> set post \<and>
               ((reply = pre @ t @ post \<and> t \<noteq> [] \<and> hd t = CHR ''{'' \<and> last t = CHR ''}'') \<or>
                (t = [] \<and> CHR ''}'' \<in> set pre \<and> CHR ''{'' \<in> set post))))"
proof (intro conjI allI impI)
  note run = nutrition_image_result[where w = w, OF assms]
  show "fst (getNutritionFromOpenAIImage rt w img) =
           (case brace_span reply of
              None \<Rightarrow>
                Inl (Exn (''OpenAI Nutrition image analysis failed: '' @
                          ''OpenAI nutrition output not JSON: '' @ reply) JUndefined)
            | Some t \<Rightarrow>
                (case JSON_parse rt t of
                   Inl e \<Rightarrow>
                     Inl (Exn (''OpenAI Nutrition image analysis failed: '' @ message_or_err rt e)
                            JUndefined)
                 | Inr v \<Rightarrow> Inr v))"
    by (simp add: run)
  show "isl (fst (getNutritionFromOpenAIImage rt w img)) \<longleftrightarrow>
            CHR ''{'' \<notin> set reply \<or> CHR ''}'' \<notin> set reply \<or>
            (\<exists>t. brace_span reply = Some t \<and> isl (JSON_parse rt t))"
  proof (cases "brace_span reply")
    case None
    then show ?thesis using brace_span_None[of reply] by (simp add: run)
  next
    case (Some t)
    then have "CHR ''{'' \<in> set reply \<and> CHR ''}'' \<in> set reply"
      using brace_span_None[of reply] by auto
    with Some show ?thesis by (simp add: run split: sum.splits)
  qed
next
  fix t assume "brace_span reply = Some t"
  then show "\<exists>pre post. CHR ''{'' \<notin> set pre \<and> CHR ''}'' \<notin> set post \<and>
               ((reply = pre @ t @ post \<and> t \<noteq> [] \<and> hd t = CHR ''{'' \<and> last t = CHR ''}'') \<or>
                (t = [] \<and> CHR ''}'' \<in> set pre \<and> CHR ''{'' \<in> set post))"
    by (rule brace_span_Some)
qed

theorem image_nutrition_parses_first_to_last_brace_witness:
  \<open>stripBase64Prefix example_rt (JStr example_image) = Inr (JStr ''iVBORw0KGgo='') \<and>
   example_world (VisionNutrition
       (''data:image/jpeg;base64,'' @ ToString example_rt (JStr ''iVBORw0KGgo='')))
     = Inr (chat_response ''Sure! {"calories":266,"protein":11,"carbs":33,"fat":10} Enjoy!'') \<and>
   message_content example_rt
       (chat_response ''Sure! {"calories":266,"protein":11,"carbs":33,"fat":10} Enjoy!'')
     = Inr (JStr ''Sure! {"calories":266,"protein":11,"carbs":33,"fat":10} Enjoy!'') \<and>
   brace_span ''Sure! {"calories":266,"protein":11,"carbs":33,"fat":10} Enjoy!''
     = Some ''{"calories":266,"protein":11,"carbs":33,"fat":10}'' \<and>
   fst (getNutritionFromOpenAIImage example_rt example_world (JStr example_image)) =
     Inr (JObj [(''calories'', JNum (Fin 266)), (''protein'', JNum (Fin 11)),
                (''carbs'', JNum (Fin 33)), (''fat'', JNum (Fin 10))]) \<and>
   \<not> isl (fst (getNutritionFromOpenAIImage example_rt example_world (JStr example_image)))\<close>
proof -
  have a: "stripBase64Prefix example_rt (JStr example_image) = Inr (JStr ''iVBORw0KGgo='')"
    by (rule example_strip)
  have b: \<open>example_world (VisionNutrition
       (''data:image/jpeg;base64,'' @ ToString example_rt (JStr ''iVBORw0KGgo='')))
     = Inr (chat_response ''Sure! {"calories":266,"protein":11,"carbs":33,"fat":10} Enjoy!'')\<close>
    by simp
  have c: \<open>message_content example_rt
       (chat_response ''Sure! {"calories":266,"protein":11,"carbs":33,"fat":10} Enjoy!'')
     = Inr (JStr ''Sure! {"calories":266,"protein":11,"carbs":33,"fat":10} Enjoy!'')\<close>
    by (rule example_content)
  from image_nutrition_parses_first_to_last_brace[where w = example_world, OF a b c] a b c show ?thesis
    by (simp add: example_brace_span example_parse_full)
qed


section \<open>The image-based estimate on the analyze route\<close>

lemma js_get_set_same: "js_get (js_set (JObj kvs) k x) k = x"
  by (simp add: js_set_def update_conv')

lemma analyze_image_tab6:
  assumes "truthy (js_get req_body ''image'')" and "truthy (js_get req_body ''tab'')"
    and "Number rt (js_get req_body ''tab'') = Fin 6"
    and "analyzeWithOpenAI rt w (js_get req_body ''image'') = (Inr foodName, t1)"
    and "getNutritionFromOpenAIImage rt w (js_get req_body ''image'') = (Inr parsed, t2)"
    and "\<not> nullish parsed"
  shows "analyze_image rt w req_body =
           (analysis foodName
              (if truthy (js_get parsed ''foodName'') then parsed
               else js_set parsed ''foodName'' (JStr foodName)),
            t1 @ t2)"
proof -
  have nn: "\<not> nullish req_body" using assms(1) by (rule truthy_get_not_nullish)
  show ?thesis
    using assms nn
    by (simp add: analyze_image_def io_run js_get_strict_def respond_def)
qed


text \<open>
  Claim C9. On the analyze route with tab 6, when the object parsed from the model's
  nutrition reply has no truthy \<open>foodName\<close>, the route sets \<open>nutrition.foodName\<close> to the
  dish name of the earlier recognition call before it answers. So the nutrition object
  of the answer always carries a truthy \<open>foodName\<close>, and when the model gave none it
  equals the top-level \<open>foodName\<close>.
\<close>

theorem tab6_nutrition_carries_foodName:
  assumes "truthy (js_get req_body ''image'')" and "truthy (js_get req_body ''tab'')"
    and "Number rt (js_get req_body ''tab'') = Fin 6"
    and "analyzeWithOpenAI rt w (js_get req_body ''image'') = (Inr foodName, t1)"
    and "getNutritionFromOpenAIImage rt w (js_get req_body ''image'') = (Inr (JObj kvs), t2)"
  shows "analyze_image rt w req_body =
           (analysis foodName
              (if truthy (js_get (JObj kvs) ''foodName'') then JObj kvs
               else JObj (AList.update ''foodName'' (JStr foodName) kvs)),
            t1 @ t2) \<and>
         truthy (js_get (js_get (body (fst (analyze_image rt w req_body))) ''nutrition'')
                   ''foodName'') \<and>
         (\<not> truthy (js_get (JObj kvs) ''foodName'') \<longrightarrow>
            js_get (js_get (body (fst (analyze_image rt w req_body))) ''nutrition'') ''foodName''
              = js_get (body (fst (analyze_image rt w req_body))) ''foodName'')"
proof -
  have name: "foodName \<noteq> []"
    using analyze_result_nonempty[of rt w "js_get req_body ''image''" foodName] assms(4) by simp
  have nn: "\<not> nullish (JObj kvs)" by (simp add: nullish_def)
  note run = analyze_image_tab6[OF assms nn]
  have upd: "js_get (JObj (AList.update ''foodName'' (JStr foodName) kvs)) ''foodName''
               = JStr foodName"
    using js_get_set_same[of kvs "''foodName''" "JStr foodName"] by (simp add: js_set_def)
  show ?thesis
  proof (cases "truthy (js_get (JObj kvs) ''foodName'')")
    case True
    then show ?thesis unfolding run by (simp add: analysis_def)
  next
    case False
    then show ?thesis unfolding run using upd name by (simp add: analysis_def js_set_def)
  qed
qed

theorem tab6_nutrition_carries_foodName_witness:
  "truthy (js_get (example_request 6) ''image'') \<and> truthy (js_get (example_request 6) ''tab'') \<and>
   Number example_rt (js_get (example_request 6) ''tab'') = Fin 6 \<and>
   analyzeWithOpenAI example_rt example_world (js_get (example_request 6) ''image'')
     = (Inr ''pizza'', [VisionRecognition ''data:image/jpeg;base64,iVBORw0KGgo='']) \<and>
   getNutritionFromOpenAIImage example_rt example_world (js_get (example_request 6) ''image'')
     = (Inr (JObj [(''calories'', JNum (Fin 266)), (''protein'', JNum (Fin 11)),
                   (''carbs'', JNum (Fin 33)), (''fat'', JNum (Fin 10))]),
        [VisionNutrition ''data:image/jpeg;base64,iVBORw0KGgo='']) \<and>
   analyze_image example_rt example_world (example_request 6) =
     (analysis ''pizza''
        (JObj [(''calories'', JNum (Fin 266)), (''protein'', JNum (Fin 11)),
               (''carbs'', JNum (Fin 33)), (''fat'', JNum (Fin 10)),
               (''foodName'', JStr ''pizza'')]),
      [VisionRecognition ''data:image/jpeg;base64,iVBORw0KGgo='',
       VisionNutrition ''data:image/jpeg;base64,iVBORw0KGgo='']) \<and>
   js_get (js_get (body (fst (analyze_image example_rt example_world (example_request 6))))
             ''nutrition'') ''foodName'' = JStr ''pizza''"
proof -
  have t: "truthy (js_get (example_request 6) ''image'')"
    "truthy (js_get (example_request 6) ''tab'')"
    by (simp_all add: example_request_simps)
  have n: "Number example_rt (js_get (example_request 6) ''tab'') = Fin 6"
    by (simp add: example_request_simps Number_def)
  have a: "analyzeWithOpenAI example_rt example_world (js_get (example_request 6) ''image'')
     = (Inr ''pizza'', [VisionRecognition ''data:image/jpeg;base64,iVBORw0KGgo=''])"
    by (simp add: example_request_simps example_recognition)
  have g: "getNutritionFromOpenAIImage example_rt example_world
             (js_get (example_request 6) ''image'')
     = (Inr (JObj [(''calories'', JNum (Fin 266)), (''protein'', JNum (Fin 11)),
                   (''carbs'', JNum (Fin 33)), (''fat'', JNum (Fin 10))]),
        [VisionNutrition ''data:image/jpeg;base64,iVBORw0KGgo=''])"
    by (simp add: example_request_simps example_nutrition_image)
  from tab6_nutrition_carries_foodName[where w = example_world, OF t n a g] t n a g
  show ?thesis by (simp add: analysis_def)
qed


section \<open>The food database parser (tab 2)\<close>

lemma first_food_array:
  "truthy (first_food (JArr (e # es))) \<longleftrightarrow> truthy (js_get e ''food'')"
  "truthy (js_get e ''food'') \<Longrightarrow> first_food (JArr (e # es)) = js_get e ''food''"
  "\<not> truthy (first_food (JArr []))"
  "\<not> truthy (first_food JUndefined)"
  by (cases e; simp add: first_food_def js_and_def)+

lemma edamam2_run:
  assumes "w (EdamamParser foodName) = Inr res_data"
  shows "getNutritionEdamam2 w foodName =
           (let data = js_or res_data (JObj []);
                food = js_or (first_food (js_get data ''parsed''))
                             (first_food (js_get data ''hints''))
            in if truthy food then Inr (edamam2_record food)
               else Inl (Exn ''Edamam FoodDB failed'' JUndefined),
            [EdamamParser foodName])"
  using assms
  by (simp add: getNutritionEdamam2_def io_run Let_def io_catch_def io_throw_def io_return_def)

lemma edamam2_rejected:
  assumes "w (EdamamParser foodName) = Inl e"
  shows "getNutritionEdamam2 w foodName =
           (Inl (Exn ''Edamam FoodDB failed'' JUndefined), [EdamamParser foodName])"
  using assms
  by (simp add: getNutritionEdamam2_def io_run io_catch_def io_throw_def)


text \<open>
  Claim C8. For every answer of the food database parser: when the \<open>parsed\<close> list has a
  first entry with a food, that food is used, whatever the \<open>hints\<close> list holds; otherwise,
  when the \<open>hints\<close> list has a first entry with a food, that food is used; and when
  neither list yields a food, the lookup fails with the adapter's error and returns no
  record. A food is used by reading the four fields of the record from its \<open>nutrients\<close>
  (\<open>ENERC_KCAL\<close>, \<open>PROCNT\<close>, \<open>CHOCDF\<close>, \<open>FAT\<close>), zero standing for a value that is absent.
  \<open>first_food lst\<close> is the food of the first entry of \<open>lst\<close>: for a list with first entry
  \<open>e\<close> it is truthy exactly when \<open>e.food\<close> is, and then it is \<open>e.food\<close>; it is falsy for
  the empty list and for an absent list.
\<close>

theorem edamam2_prefers_parsed_then_hints:
  assumes "w (EdamamParser foodName) = Inr res_data"
    and "parsed = js_get (js_or res_data (JObj [])) ''parsed''"
    and "hints = js_get (js_or res_data (JObj [])) ''hints''"
  shows "(truthy (first_food parsed) \<longrightarrow>
            getNutritionEdamam2 w foodName =
              (Inr (edamam2_record (first_food parsed)), [EdamamParser foodName])) \<and>
         (\<not> truthy (first_food parsed) \<and> truthy (first_food hints) \<longrightarrow>
            getNutritionEdamam2 w foodName =
              (Inr (edamam2_record (first_food hints)), [EdamamParser foodName])) \<and>
         (\<not> truthy (first_food parsed) \<and> \<not> truthy (first_food hints) \<longrightarrow>
            getNutritionEdamam2 w foodName =
              (Inl (Exn ''Edamam FoodDB failed'' JUndefined), [EdamamParser foodName])) \<and>
         (\<forall>lst e es. lst = JArr (e # es) \<longrightarrow>
            (truthy (first_food lst) \<longleftrightarrow> truthy (js_get e ''food'')) \<and>
            (truthy (js_get e ''food'') \<longrightarrow> first_food lst = js_get e ''food'')) \<and>
         \<not> truthy (first_food (JArr [])) \<and> \<not> truthy (first_food JUndefined) \<and>
         (\<forall>food n.
            n = (if truthy (js_get food ''nutrients'') then js_get food ''nutrients''
                 else JObj []) \<longrightarrow>
            edamam2_record food =
              JObj [(''calories'', if truthy (js_get n ''ENERC_KCAL'')
                                   then js_get n ''ENERC_KCAL'' else JNum (Fin 0)),
                    (''protein'', if truthy (js_get n ''PROCNT'')
                                  then js_get n ''PROCNT'' else JNum (Fin 0)),
                    (''carbs'', if truthy (js_get n ''CHOCDF'')
                                then js_get n ''CHOCDF'' else JNum (Fin 0)),
                    (''fat'', if truthy (js_get n ''FAT'')
                              then js_get n ''FAT'' else JNum (Fin 0))]) \<and>
         (\<forall>e es n.
            parsed = JArr (e # es) \<and> truthy (js_get e ''food'') \<and>
            n = (if truthy (js_get (js_get e ''food'') ''nutrients'')
                 then js_get (js_get e ''food'') ''nutrients'' else JObj []) \<longrightarrow>
            getNutritionEdamam2 w foodName =
              (Inr (JObj [(''calories'', if truthy (js_get n ''ENERC_KCAL'')
                                         then js_get n ''ENERC_KCAL'' else JNum (Fin 0)),
                          (''protein'', if truthy (js_get n ''PROCNT'')
                                        then js_get n ''PROCNT'' else JNum (Fin 0)),
                          (''carbs'', if truthy (js_get n ''CHOCDF'')
                                      then js_get n ''CHOCDF'' else JNum (Fin 0)),
                          (''fat'', if truthy (js_get n ''FAT'')
                                    then js_get n ''FAT'' else JNum (Fin 0))]),
               [EdamamParser foodName])) \<and>
         (\<forall>h hs n.
            \<not> truthy (first_food parsed) \<and>
            hints = JArr (h # hs) \<and> truthy (js_get h ''food'') \<and>
            n = (if truthy (js_get (js_get h ''food'') ''nutrients'')
                 then js_get (js_get h ''food'') ''nutrients'' else JObj []) \<longrightarrow>
            getNutritionEdamam2 w foodName =
              (Inr (JObj [(''calories'', if truthy (js_get n ''ENERC_KCAL'')
                                         then js_get n ''ENERC_KCAL'' else JNum (Fin 0)),
                          (''protein'', if truthy (js_get n ''PROCNT'')
                                        then js_get n ''PROCNT'' else JNum (Fin 0)),
                          (''carbs'', if truthy (js_get n ''CHOCDF'')
                                      then js_get n ''CHOCDF'' else JNum (Fin 0)),
                          (''fat'', if truthy (js_get n ''FAT'')
                                    then js_get n ''FAT'' else JNum (Fin 0))]),
               [EdamamParser foodName]))"
proof -
  note run = edamam2_run[where w = w, OF assms(1)]
  have sel: "(truthy (first_food parsed) \<longrightarrow>
            getNutritionEdamam2 w foodName =
              (Inr (edamam2_record (first_food parsed)), [EdamamParser foodName])) \<and>
         (\<not> truthy (first_food parsed) \<and> truthy (first_food hints) \<longrightarrow>
            getNutritionEdamam2 w foodName =
              (Inr (edamam2_record (first_food hints)), [EdamamParser foodName])) \<and>
         (\<not> truthy (first_food parsed) \<and> \<not> truthy (first_food hints) \<longrightarrow>
            getNutritionEdamam2 w foodName =
              (Inl (Exn ''Edamam FoodDB failed'' JUndefined), [EdamamParser foodName]))"
    by (simp add: run assms(2,3) Let_def js_or_def)
  have shape: "(\<forall>lst e es. lst = JArr (e # es) \<longrightarrow>
            (truthy (first_food lst) \<longleftrightarrow> truthy (js_get e ''food'')) \<and>
            (truthy (js_get e ''food'') \<longrightarrow> first_food lst = js_get e ''food'')) \<and>
         \<not> truthy (first_food (JArr [])) \<and> \<not> truthy (first_food JUndefined)"
    using first_food_array by simp
  have fields: "\<And>food. edamam2_record food =
      JObj [(''calories'',
             if truthy (js_get (if truthy (js_get food ''nutrients'') then js_get food ''nutrients''
                                else JObj []) ''ENERC_KCAL'')
             then js_get (if truthy (js_get food ''nutrients'') then js_get food ''nutrients''
                          else JObj []) ''ENERC_KCAL'' else JNum (Fin 0)),
            (''protein'',
             if truthy (js_get (if truthy (js_get food ''nutrients'') then js_get food ''nutrients''
                                else JObj []) ''PROCNT'')
             then js_get (if truthy (js_get food ''nutrients'') then js_get food ''nutrients''
                          else JObj []) ''PROCNT'' else JNum (Fin 0)),
            (''carbs'',
             if truthy (js_get (if truthy (js_get food ''nutrients'') then js_get food ''nutrients''
                                else JObj []) ''CHOCDF'')
             then js_get (if truthy (js_get food ''nutrients'') then js_get food ''nutrients''
                          else JObj []) ''CHOCDF'' else JNum (Fin 0)),
            (''fat'',
             if truthy (js_get (if truthy (js_get food ''nutrients'') then js_get food ''nutrients''
                                else JObj []) ''FAT'')
             then js_get (if truthy (js_get food ''nutrients'') then js_get food ''nutrients''
                          else JObj []) ''FAT'' else JNum (Fin 0))]"
    by (simp add: edamam2_record_def nutrition_record_def js_or_def zero_def Let_def)
  have from_parsed: "\<And>e es. parsed = JArr (e # es) \<Longrightarrow> truthy (js_get e ''food'') \<Longrightarrow>
      getNutritionEdamam2 w foodName =
        (Inr (edamam2_record (js_get e ''food'')), [EdamamParser foodName])"
    using sel first_food_array(1,2) by metis
  have from_hints: "\<And>h hs. \<not> truthy (first_food parsed) \<Longrightarrow> hints = JArr (h # hs) \<Longrightarrow>
      truthy (js_get h ''food'') \<Longrightarrow>
      getNutritionEdamam2 w foodName =
        (Inr (edamam2_record (js_get h ''food'')), [EdamamParser foodName])"
    using sel first_food_array(1,2) by metis
  show ?thesis
  proof (intro conjI allI impI)
    fix e es n
    assume a: "parsed = JArr (e # es) \<and> truthy (js_get e ''food'') \<and>
            n = (if truthy (js_get (js_get e ''food'') ''nutrients'')
                 then js_get (js_get e ''food'') ''nutrients'' else JObj [])"
    then have "getNutritionEdamam2 w foodName =
        (Inr (edamam2_record (js_get e ''food'')), [EdamamParser foodName])"
      using from_parsed by blast
    then show "getNutritionEdamam2 w foodName =
              (Inr (JObj [(''calories'', if truthy (js_get n ''ENERC_KCAL'')
                                         then js_get n ''ENERC_KCAL'' else JNum (Fin 0)),
                          (''protein'', if truthy (js_get n ''PROCNT'')
                                        then js_get n ''PROCNT'' else JNum (Fin 0)),
                          (''carbs'', if truthy (js_get n ''CHOCDF'')
                                      then js_get n ''CHOCDF'' else JNum (Fin 0)),
                          (''fat'', if truthy (js_get n ''FAT'')
                                    then js_get n ''FAT'' else JNum (Fin 0))]),
               [EdamamParser foodName])"
      using a by (simp add: fields)
  next
    fix h hs n
    assume a: "\<not> truthy (first_food parsed) \<and>
            hints = JArr (h # hs) \<and> truthy (js_get h ''food'') \<and>
            n = (if truthy (js_get (js_get h ''food'') ''nutrients'')
                 then js_get (js_get h ''food'') ''nutrients'' else JObj [])"
    then have "getNutritionEdamam2 w foodName =
        (Inr (edamam2_record (js_get h ''food'')), [EdamamParser foodName])"
      using from_hints by blast
    then show "getNutritionEdamam2 w foodName =
              (Inr (JObj [(''calories'', if truthy (js_get n ''ENERC_KCAL'')
                                         then js_get n ''ENERC_KCAL'' else JNum (Fin 0)),
                          (''protein'', if truthy (js_get n ''PROCNT'')
                                        then js_get n ''PROCNT'' else JNum (Fin 0)),
                          (''carbs'', if truthy (js_get n ''CHOCDF'')
                                      then js_get n ''CHOCDF'' else JNum (Fin 0)),
                          (''fat'', if truthy (js_get n ''FAT'')
                                    then js_get n ''FAT'' else JNum (Fin 0))]),
               [EdamamParser foodName])"
      using a by (simp add: fields)
  next
    fix food n
    assume "n = (if truthy (js_get food ''nutrients'') then js_get food ''nutrients''
                 else JObj [])"
    then show "edamam2_record food =
              JObj [(''calories'', if truthy (js_get n ''ENERC_KCAL'')
                                   then js_get n ''ENERC_KCAL'' else JNum (Fin 0)),
                    (''protein'', if truthy (js_get n ''PROCNT'')
                                  then js_get n ''PROCNT'' else JNum (Fin 0)),
                    (''carbs'', if truthy (js_get n ''CHOCDF'')
                                then js_get n ''CHOCDF'' else JNum (Fin 0)),
                    (''fat'', if truthy (js_get n ''FAT'')
                              then js_get n ''FAT'' else JNum (Fin 0))]"
      by (simp add: fields)
  qed (use sel shape in blast)+
qed

theorem edamam2_prefers_parsed_then_hints_witness:
  "world_parsed_and_hints (EdamamParser ''pizza'') =
     Inr (JObj [(''text'', JStr ''pizza''),
                (''parsed'',
                 JArr [JObj [(''food'',
                   JObj [(''label'', JStr ''Pizza, cheese''),
                         (''nutrients'',
                          JObj [(''ENERC_KCAL'', JNum (Fin 271)), (''PROCNT'', JNum (Fin (57 / 5))),
                                (''CHOCDF'', JNum (Fin 33))])])]]),
                (''hints'',
                 JArr [JObj [(''food'',
                   JObj [(''label'', JStr ''Pizza''),
                         (''nutrients'',
                          JObj [(''ENERC_KCAL'', JNum (Fin 266)), (''PROCNT'', JNum (Fin 11)),
                                (''FAT'', JNum (Fin 10))])])]])]) \<and>
   getNutritionEdamam2 world_parsed_and_hints ''pizza'' =
     (Inr (JObj [(''calories'', JNum (Fin 271)), (''protein'', JNum (Fin (57 / 5))),
                 (''carbs'', JNum (Fin 33)), (''fat'', JNum (Fin 0))]),
      [EdamamParser ''pizza'']) \<and>
   example_world (EdamamParser ''pizza'') =
     Inr (JObj [(''text'', JStr ''pizza''),
                (''parsed'', JArr []),
                (''hints'',
                 JArr [JObj [(''food'',
                   JObj [(''label'', JStr ''Pizza''),
                         (''nutrients'',
                          JObj [(''ENERC_KCAL'', JNum (Fin 266)), (''PROCNT'', JNum (Fin 11)),
                                (''FAT'', JNum (Fin 10))])])]])]) \<and>
   \<not> truthy (first_food (JArr [])) \<and>
   getNutritionEdamam2 example_world ''pizza'' =
     (Inr (JObj [(''calories'', JNum (Fin 266)), (''protein'', JNum (Fin 11)),
                 (''carbs'', JNum (Fin 0)), (''fat'', JNum (Fin 10))]),
      [EdamamParser ''pizza'']) \<and>
   getNutritionEdamam2 world_no_parser_match ''pizza'' =
     (Inl (Exn ''Edamam FoodDB failed'' JUndefined), [EdamamParser ''pizza''])"
proof -
  let ?pfood = "JObj [(''label'', JStr ''Pizza, cheese''),
                      (''nutrients'',
                       JObj [(''ENERC_KCAL'', JNum (Fin 271)), (''PROCNT'', JNum (Fin (57 / 5))),
                             (''CHOCDF'', JNum (Fin 33))])]"
  let ?hfood = "JObj [(''label'', JStr ''Pizza''),
                      (''nutrients'',
                       JObj [(''ENERC_KCAL'', JNum (Fin 266)), (''PROCNT'', JNum (Fin 11)),
                             (''FAT'', JNum (Fin 10))])]"
  let ?both = "JObj [(''text'', JStr ''pizza''),
                     (''parsed'', JArr [JObj [(''food'', ?pfood)]]),
                     (''hints'', JArr [JObj [(''food'', ?hfood)]])]"
  let ?only_hints = "JObj [(''text'', JStr ''pizza''),
                           (''parsed'', JArr []),
                           (''hints'', JArr [JObj [(''food'', ?hfood)]])]"
  let ?none = "JObj [(''text'', JStr ''pizza''), (''parsed'', JArr []), (''hints'', JArr [])]"
  have a: "world_parsed_and_hints (EdamamParser ''pizza'') = Inr ?both"
    by (simp add: world_parsed_and_hints_def)
  have b: "example_world (EdamamParser ''pizza'') = Inr ?only_hints"
    by simp
  have c: "world_no_parser_match (EdamamParser ''pizza'') = Inr ?none"
    by (simp add: world_no_parser_match_def)
  have nf: "\<not> truthy (first_food (JArr []))"
    by (simp add: first_food_def js_and_def)
  have r1: "getNutritionEdamam2 world_parsed_and_hints ''pizza'' =
     (Inr (JObj [(''calories'', JNum (Fin 271)), (''protein'', JNum (Fin (57 / 5))),
                 (''carbs'', JNum (Fin 33)), (''fat'', JNum (Fin 0))]),
      [EdamamParser ''pizza''])"
    using edamam2_prefers_parsed_then_hints[where w = world_parsed_and_hints, OF a refl refl]
    by (simp add: js_or_def)
  have r2: "getNutritionEdamam2 example_world ''pizza'' =
     (Inr (JObj [(''calories'', JNum (Fin 266)), (''protein'', JNum (Fin 11)),
                 (''carbs'', JNum (Fin 0)), (''fat'', JNum (Fin 10))]),
      [EdamamParser ''pizza''])"
    using edamam2_prefers_parsed_then_hints[where w = example_world, OF b refl refl] nf
    by (simp add: js_or_def)
  have r3: "getNutritionEdamam2 world_no_parser_match ''pizza'' =
     (Inl (Exn ''Edamam FoodDB failed'' JUndefined), [EdamamParser ''pizza''])"
    using edamam2_prefers_parsed_then_hints[where w = world_no_parser_match, OF c refl refl] nf
    by (simp add: js_or_def)
  show ?thesis using a b nf r1 r2 r3 by simp
qed

section \<open>The OAuth-backed food search (tab 3)\<close>

lemma fatsecret_token_stage:
  assumes "\<forall>d. w FatSecretToken = Inr d \<longrightarrow> \<not> truthy (fatsecret_token d)"
  shows "getNutritionFatSecret rt w foodName =
           (Inl (Exn ''FatSecret failed'' JUndefined), [FatSecretToken])"
  using assms
  by (cases "w FatSecretToken")
    (simp_all add: getNutritionFatSecret_def io_run Let_def io_catch_def io_throw_def)

lemma fatsecret_search_stage:
  assumes "w FatSecretToken = Inr d" and "truthy (fatsecret_token d)"
    and "\<forall>s. w (FatSecretSearch foodName (fatsecret_token d)) = Inr s
              \<longrightarrow> \<not> truthy (fatsecret_firstFood s)"
  shows "getNutritionFatSecret rt w foodName =
           (Inl (Exn ''FatSecret failed'' JUndefined),
            [FatSecretToken, FatSecretSearch foodName (fatsecret_token d)])"
  using assms
  by (cases "w (FatSecretSearch foodName (fatsecret_token d))")
    (simp_all add: getNutritionFatSecret_def io_run Let_def io_catch_def io_throw_def)

lemma fatsecret_detail_stage:
  assumes "w FatSecretToken = Inr d" and "truthy (fatsecret_token d)"
    and "w (FatSecretSearch foodName (fatsecret_token d)) = Inr s"
    and "truthy (fatsecret_firstFood s)"
    and "foodId = js_or (js_get (fatsecret_firstFood s) ''food_id'')
                        (js_get (fatsecret_firstFood s) ''id'')"
    and "\<forall>x. w (FatSecretDetail foodId (fatsecret_token d)) = Inr x
              \<longrightarrow> \<not> truthy (fatsecret_serving x)"
  shows "getNutritionFatSecret rt w foodName =
           (Inl (Exn ''FatSecret failed'' JUndefined),
            [FatSecretToken, FatSecretSearch foodName (fatsecret_token d),
             FatSecretDetail foodId (fatsecret_token d)])"
  using assms
  by (cases "w (FatSecretDetail foodId (fatsecret_token d))")
    (simp_all add: getNutritionFatSecret_def io_run Let_def io_catch_def io_throw_def)

lemma fatsecret_failure_is_generic:
  "fst (getNutritionFatSecret rt w foodName) = Inl err \<Longrightarrow> err = Exn ''FatSecret failed'' JUndefined"
  by (auto simp: getNutritionFatSecret_def fst_io_catch_throw split: sum.splits)

lemma example_recognition_any_world:
  assumes "w (VisionRecognition ''data:image/jpeg;base64,iVBORw0KGgo='')
             = Inr (chat_response ''pizza '')"
  shows "analyzeWithOpenAI example_rt w (JStr example_image) =
           (Inr ''pizza'', [VisionRecognition ''data:image/jpeg;base64,iVBORw0KGgo=''])"
  using assms
  by (simp add: analyzeWithOpenAI_def io_run example_strip ToString_def example_content
      js_or_def js_trim_def example_rt_def example_trim_def)

lemma example_token: "fatsecret_token (JObj [(''access_token'', JStr ''t0k3n''),
    (''token_type'', JStr ''Bearer'')]) = JStr ''t0k3n''"
  by (simp add: fatsecret_token_def js_and_def)

lemma example_no_hit:
  "\<not> truthy (fatsecret_firstFood (JObj [(''foods'', JObj [(''total_results'', JStr ''0'')])]))"
  by (simp add: fatsecret_firstFood_def js_and_def js_or_def is_array_def Let_def)

lemma example_hit:
  "fatsecret_firstFood
     (JObj [(''foods'', JObj [(''food'', JArr [JObj [(''food_id'', JStr ''33691'')]])])])
   = JObj [(''food_id'', JStr ''33691'')]"
  by (simp add: fatsecret_firstFood_def js_and_def js_or_def is_array_def Let_def)

lemma example_no_serving:
  "\<not> truthy (fatsecret_serving
      (JObj [(''food'', JObj [(''food_id'', JStr ''33691''), (''food_name'', JStr ''Pizza'')])]))"
  by (simp add: fatsecret_serving_def js_and_def Let_def)

lemma example_fatsecret_token_rejected:
  "getNutritionFatSecret example_rt world_token_rejected ''pizza'' =
     (Inl (Exn ''FatSecret failed'' JUndefined), [FatSecretToken])"
  by (simp add: getNutritionFatSecret_def io_run world_token_rejected_def)

lemma example_fatsecret_no_search_hit:
  "getNutritionFatSecret example_rt world_no_search_hit ''pizza'' =
     (Inl (Exn ''FatSecret failed'' JUndefined),
      [FatSecretToken, FatSecretSearch ''pizza'' (JStr ''t0k3n'')])"
  by (simp add: getNutritionFatSecret_def io_run world_no_search_hit_def example_token
      example_no_hit Let_def)

lemma example_analyze_token_rejected:
  "analyze_image example_rt world_token_rejected (example_request 3) =
     (Response 500 (error_body ''FatSecret failed''),
      [VisionRecognition ''data:image/jpeg;base64,iVBORw0KGgo='', FatSecretToken])"
proof -
  have r: "analyzeWithOpenAI example_rt world_token_rejected (JStr example_image) =
           (Inr ''pizza'', [VisionRecognition ''data:image/jpeg;base64,iVBORw0KGgo=''])"
    by (rule example_recognition_any_world) (simp add: world_token_rejected_def)
  show ?thesis
    by (simp add: analyze_image_def io_run js_get_strict_def example_request_simps r Number_def
        respond_def example_fatsecret_token_rejected)
qed

lemma example_analyze_no_search_hit:
  "analyze_image example_rt world_no_search_hit (example_request 3) =
     (Response 500 (error_body ''FatSecret failed''),
      [VisionRecognition ''data:image/jpeg;base64,iVBORw0KGgo='', FatSecretToken,
       FatSecretSearch ''pizza'' (JStr ''t0k3n'')])"
proof -
  have r: "analyzeWithOpenAI example_rt world_no_search_hit (JStr example_image) =
           (Inr ''pizza'', [VisionRecognition ''data:image/jpeg;base64,iVBORw0KGgo=''])"
    by (rule example_recognition_any_world) (simp add: world_no_search_hit_def)
  show ?thesis
    by (simp add: analyze_image_def io_run js_get_strict_def example_request_simps r Number_def
        respond_def example_fatsecret_no_search_hit)
qed


text \<open>
  Claim C4, as stated: when a stage of the adapter fails, the error it surfaces names the
  stage. On the example upstreams a rejected token exchange and an empty search end in
  the same error, \<open>FatSecret failed\<close>, at the adapter and in the answer of the analyze
  route; only the calls made differ.
\<close>

theorem fatsecret_error_names_stage_counterexample:
  "analyze_image example_rt world_token_rejected (example_request 3) =
     (Response 500 (error_body ''FatSecret failed''),
      [VisionRecognition ''data:image/jpeg;base64,iVBORw0KGgo='', FatSecretToken]) \<and>
   analyze_image example_rt world_no_search_hit (example_request 3) =
     (Response 500 (error_body ''FatSecret failed''),
      [VisionRecognition ''data:image/jpeg;base64,iVBORw0KGgo='', FatSecretToken,
       FatSecretSearch ''pizza'' (JStr ''t0k3n'')]) \<and>
   fst (getNutritionFatSecret example_rt world_token_rejected ''pizza'')
     = fst (getNutritionFatSecret example_rt world_no_search_hit ''pizza'')"
  by (simp add: example_analyze_token_rejected example_analyze_no_search_hit
      example_fatsecret_token_rejected example_fatsecret_no_search_hit)


text \<open>
  Claim C4, amended: when any of the three sequential stages fails (the token call is
  rejected or yields no access token; the search is rejected or yields no food; the
  detail call is rejected or yields no serving), the adapter aborts and makes no
  later-stage call: the calls on record end with the failing stage. The error it
  surfaces is the adapter's single error \<open>FatSecret failed\<close>, the same for every stage.
\<close>

theorem fatsecret_stage_failure_aborts:
  "((\<forall>d. w FatSecretToken = Inr d \<longrightarrow> \<not> truthy (fatsecret_token d)) \<longrightarrow>
      getNutritionFatSecret rt w foodName =
        (Inl (Exn ''FatSecret failed'' JUndefined), [FatSecretToken])) \<and>
   (w FatSecretToken = Inr d \<and> truthy (fatsecret_token d) \<and>
    (\<forall>s. w (FatSecretSearch foodName (fatsecret_token d)) = Inr s
           \<longrightarrow> \<not> truthy (fatsecret_firstFood s)) \<longrightarrow>
      getNutritionFatSecret rt w foodName =
        (Inl (Exn ''FatSecret failed'' JUndefined),
         [FatSecretToken, FatSecretSearch foodName (fatsecret_token d)])) \<and>
   (w FatSecretToken = Inr d \<and> truthy (fatsecret_token d) \<and>
    w (FatSecretSearch foodName (fatsecret_token d)) = Inr s \<and>
    truthy (fatsecret_firstFood s) \<and>
    foodId = js_or (js_get (fatsecret_firstFood s) ''food_id'')
                   (js_get (fatsecret_firstFood s) ''id'') \<and>
    (\<forall>x. w (FatSecretDetail foodId (fatsecret_token d)) = Inr x
           \<longrightarrow> \<not> truthy (fatsecret_serving x)) \<longrightarrow>
      getNutritionFatSecret rt w foodName =
        (Inl (Exn ''FatSecret failed'' JUndefined),
         [FatSecretToken, FatSecretSearch foodName (fatsecret_token d),
          FatSecretDetail foodId (fatsecret_token d)])) \<and>
   (\<forall>err. fst (getNutritionFatSecret rt w foodName) = Inl err \<longrightarrow>
      err = Exn ''FatSecret failed'' JUndefined)"
proof (intro conjI impI allI)
  assume "\<forall>d. w FatSecretToken = Inr d \<longrightarrow> \<not> truthy (fatsecret_token d)"
  then show "getNutritionFatSecret rt w foodName =
        (Inl (Exn ''FatSecret failed'' JUndefined), [FatSecretToken])"
    by (rule fatsecret_token_stage)
next
  assume "w FatSecretToken = Inr d \<and> truthy (fatsecret_token d) \<and>
    (\<forall>s. w (FatSecretSearch foodName (fatsecret_token d)) = Inr s
           \<longrightarrow> \<not> truthy (fatsecret_firstFood s))"
  then show "getNutritionFatSecret rt w foodName =
        (Inl (Exn ''FatSecret failed'' JUndefined),
         [FatSecretToken, FatSecretSearch foodName (fatsecret_token d)])"
    using fatsecret_search_stage[where w = w] by blast
next
  assume "w FatSecretToken = Inr d \<and> truthy (fatsecret_token d) \<and>
    w (FatSecretSearch foodName (fatsecret_token d)) = Inr s \<and>
    truthy (fatsecret_firstFood s) \<and>
    foodId = js_or (js_get (fatsecret_firstFood s) ''food_id'')
                   (js_get (fatsecret_firstFood s) ''id'') \<and>
    (\<forall>x. w (FatSecretDetail foodId (fatsecret_token d)) = Inr x
           \<longrightarrow> \<not> truthy (fatsecret_serving x))"
  then show "getNutritionFatSecret rt w foodName =
        (Inl (Exn ''FatSecret failed'' JUndefined),
         [FatSecretToken, FatSecretSearch foodName (fatsecret_token d),
          FatSecretDetail foodId (fatsecret_token d)])"
    using fatsecret_detail_stage[where w = w and d = d and s = s] by blast
next
  fix err assume "fst (getNutritionFatSecret rt w foodName) = Inl err"
  then show "err = Exn ''FatSecret failed'' JUndefined"
    by (rule fatsecret_failure_is_generic)
qed


theorem fatsecret_stage_failure_aborts_witness:
  "world_token_rejected FatSecretToken =
     Inl (Exn ''Request failed with status code 401'' (JObj [(''error'', JStr ''invalid_client'')])) \<and>
   getNutritionFatSecret example_rt world_token_rejected ''pizza'' =
     (Inl (Exn ''FatSecret failed'' JUndefined), [FatSecretToken]) \<and>
   getNutritionFatSecret example_rt world_no_search_hit ''pizza'' =
     (Inl (Exn ''FatSecret failed'' JUndefined),
      [FatSecretToken, FatSecretSearch ''pizza'' (JStr ''t0k3n'')]) \<and>
   getNutritionFatSecret example_rt world_no_serving ''pizza'' =
     (Inl (Exn ''FatSecret failed'' JUndefined),
      [FatSecretToken, FatSecretSearch ''pizza'' (JStr ''t0k3n''),
       FatSecretDetail (JStr ''33691'') (JStr ''t0k3n'')])"
proof -
  let ?tok = "JObj [(''access_token'', JStr ''t0k3n''), (''token_type'', JStr ''Bearer'')]"
  let ?hit = "JObj [(''foods'', JObj [(''food'', JArr [JObj [(''food_id'', JStr ''33691'')]])])]"
  have h1: "\<forall>d. world_token_rejected FatSecretToken = Inr d \<longrightarrow> \<not> truthy (fatsecret_token d)"
    by (simp add: world_token_rejected_def)
  have r1: "getNutritionFatSecret example_rt world_token_rejected ''pizza'' =
     (Inl (Exn ''FatSecret failed'' JUndefined), [FatSecretToken])"
    using fatsecret_stage_failure_aborts[where w = world_token_rejected and rt = example_rt
        and foodName = "''pizza''"] h1 by blast
  have h2: "world_no_search_hit FatSecretToken = Inr ?tok \<and> truthy (fatsecret_token ?tok) \<and>
    (\<forall>s. world_no_search_hit (FatSecretSearch ''pizza'' (fatsecret_token ?tok)) = Inr s
           \<longrightarrow> \<not> truthy (fatsecret_firstFood s))"
    using example_no_hit by (auto simp add: world_no_search_hit_def example_token)
  have r2: "getNutritionFatSecret example_rt world_no_search_hit ''pizza'' =
     (Inl (Exn ''FatSecret failed'' JUndefined),
      [FatSecretToken, FatSecretSearch ''pizza'' (fatsecret_token ?tok)])"
    using fatsecret_stage_failure_aborts[where w = world_no_search_hit and rt = example_rt
        and foodName = "''pizza''" and d = ?tok] h2 by blast
  have h3: "world_no_serving FatSecretToken = Inr ?tok \<and> truthy (fatsecret_token ?tok) \<and>
    world_no_serving (FatSecretSearch ''pizza'' (fatsecret_token ?tok)) = Inr ?hit \<and>
    truthy (fatsecret_firstFood ?hit) \<and>
    JStr ''33691'' = js_or (js_get (fatsecret_firstFood ?hit) ''food_id'')
                   (js_get (fatsecret_firstFood ?hit) ''id'') \<and>
    (\<forall>x. world_no_serving (FatSecretDetail (JStr ''33691'') (fatsecret_token ?tok)) = Inr x
           \<longrightarrow> \<not> truthy (fatsecret_serving x))"
    using example_no_serving
    by (auto simp add: world_no_serving_def example_token example_hit js_or_def)
  have r3: "getNutritionFatSecret example_rt world_no_serving ''pizza'' =
     (Inl (Exn ''FatSecret failed'' JUndefined),
      [FatSecretToken, FatSecretSearch ''pizza'' (fatsecret_token ?tok),
       FatSecretDetail (JStr ''33691'') (fatsecret_token ?tok)])"
    using fatsecret_stage_failure_aborts[where w = world_no_serving and rt = example_rt
        and foodName = "''pizza''" and d = ?tok and s = ?hit and foodId = "JStr ''33691''"] h3
    by blast
  show ?thesis
    using r1 r2 r3 by (simp add: example_token world_token_rejected_def)
qed


section \<open>What the six adapters return\<close>

text \<open>
  The adapters of tabs 1 to 5 build their record with a default of zero for every field,
  so a record they return is complete; those of tabs 2 to 5 fail when the upstream
  answer holds no result. The adapter by name (tab 6) returns the object parsed from
  the model's reply as it is.
\<close>

lemma js_or_zero_defined: "js_or x zero \<noteq> JUndefined"
  by (cases x) (auto simp: js_or_def zero_def)

lemma complete_nutrition_record:
  "a \<noteq> JUndefined \<Longrightarrow> b \<noteq> JUndefined \<Longrightarrow> c \<noteq> JUndefined \<Longrightarrow> d \<noteq> JUndefined \<Longrightarrow>
     complete_record (nutrition_record a b c d)"
  by (simp add: complete_record_def nutrition_record_def)

lemma edamam1_run:
  assumes "w (EdamamNutritionData foodName) = Inr res_data"
  shows "\<exists>calories protein carbs fat.
           getNutritionEdamam1 w foodName =
             (Inr (nutrition_record (js_or calories zero) (js_or protein zero)
                     (js_or carbs zero) (js_or fat zero)),
              [EdamamNutritionData foodName])"
  using assms
  by (auto simp add: getNutritionEdamam1_def io_run Let_def io_catch_def io_return_def)

lemma edamam1_record_complete:
  assumes "w (EdamamNutritionData foodName) = Inr res_data"
  shows "\<exists>r. fst (getNutritionEdamam1 w foodName) = Inr r \<and> complete_record r"
  using edamam1_run[where w = w, OF assms]
  by (auto intro!: complete_nutrition_record js_or_zero_defined)

lemma edamam1_nothing_recognised:
  assumes "w (EdamamNutritionData foodName) = Inr res_data"
    and "\<not> truthy (js_get (js_or res_data (JObj [])) ''calories'')"
    and "\<not> truthy (js_get (js_or res_data (JObj [])) ''totalNutrients'')"
  shows "getNutritionEdamam1 w foodName =
           (Inr (nutrition_record zero zero zero zero), [EdamamNutritionData foodName])"
  using assms
  by (simp add: getNutritionEdamam1_def io_run Let_def io_catch_def io_return_def js_or_def
      js_and_def)

lemma edamam2_record_complete:
  "fst (getNutritionEdamam2 w foodName) = Inr r \<Longrightarrow> complete_record r"
  by (cases "w (EdamamParser foodName)")
    (auto simp: edamam2_run edamam2_rejected Let_def edamam2_record_def
      intro!: complete_nutrition_record js_or_zero_defined split: if_splits)

lemma openfoodfacts_run:
  assumes "w (OpenFoodFactsSearch foodName) = Inr res_data"
    and "product = js_and res_data
                     (js_and (js_get res_data ''products'')
                        (js_first (js_get res_data ''products'')))"
  shows "getNutritionOpenFoodFacts w foodName =
           (if truthy product then
              (let n = js_or (js_get product ''nutriments'') (JObj [])
               in Inr (nutrition_record
                    (js_or (js_or (js_get n ''energy-kcal'') (js_get n ''energy_kcal'')) zero)
                    (js_or (js_get n ''proteins'') zero)
                    (js_or (js_get n ''carbohydrates'') zero)
                    (js_or (js_get n ''fat'') zero)))
            else Inl (Exn ''OpenFoodFacts failed'' JUndefined),
            [OpenFoodFactsSearch foodName])"
  using assms
  by (simp add: getNutritionOpenFoodFacts_def io_run Let_def io_catch_def io_throw_def
      io_return_def)

lemma openfoodfacts_no_product:
  assumes "w (OpenFoodFactsSearch foodName) = Inr res_data"
    and "js_get res_data ''products'' = JArr []"
  shows "getNutritionOpenFoodFacts w foodName =
           (Inl (Exn ''OpenFoodFacts failed'' JUndefined), [OpenFoodFactsSearch foodName])"
  using assms
  by (simp add: openfoodfacts_run[where w = w, OF assms(1) refl] js_and_def)

lemma openfoodfacts_record_complete:
  "fst (getNutritionOpenFoodFacts w foodName) = Inr r \<Longrightarrow> complete_record r"
proof (cases "w (OpenFoodFactsSearch foodName)")
  case (Inl e)
  then show "fst (getNutritionOpenFoodFacts w foodName) = Inr r \<Longrightarrow> complete_record r"
    by (simp add: getNutritionOpenFoodFacts_def io_run io_catch_def io_throw_def)
next
  case (Inr d)
  show "fst (getNutritionOpenFoodFacts w foodName) = Inr r \<Longrightarrow> complete_record r"
    unfolding openfoodfacts_run[where w = w, OF Inr refl]
    by (auto simp: Let_def intro!: complete_nutrition_record js_or_zero_defined split: if_splits)
qed

lemma fatsecret_record_complete:
  "fst (getNutritionFatSecret rt w foodName) = Inr r \<Longrightarrow> complete_record r"
  by (auto simp: getNutritionFatSecret_def fst_io_catch_throw fst_io_bind fst_io_call Let_def
      fst_io_throw fst_io_return
      intro!: complete_nutrition_record js_or_zero_defined split: sum.splits if_splits)


lemma example_fatsecret_record:
  "getNutritionFatSecret example_rt example_world ''pizza'' =
     (Inr (nutrition_record (JNum (Fin 266)) (JNum (Fin (57 / 5))) (JNum (Fin 33)) zero),
      [FatSecretToken, FatSecretSearch ''pizza'' (JStr ''t0k3n''),
       FatSecretDetail (JStr ''33691'') (JStr ''t0k3n'')])"
  by (simp add: getNutritionFatSecret_def io_run example_token example_hit Let_def js_or_def
      fatsecret_serving_def js_and_def example_rt_def example_parseFloat_def zero_def)

lemma parseVal_number: "is_number (parseVal rt v)"
  by (simp add: parseVal_def zero_def is_number_def)

lemma is_number_defined: "is_number v \<Longrightarrow> v \<noteq> JUndefined"
  by (auto simp: is_number_def)

lemma spoonacular_guess_record:
  assumes "w (SpoonacularGuess foodName) = Inr guessData"
    and "truthy (js_and guessData
                   (js_or (js_get guessData ''calories'')
                          (JBool (js_get guessData ''calories'' = zero))))"
  shows "getNutritionSpoonacular rt w foodName =
           (Inr (nutrition_record
                   (parseVal rt (js_get guessData ''calories''))
                   (parseVal rt (js_get guessData ''protein''))
                   (parseVal rt (js_get guessData ''carbs''))
                   (parseVal rt (js_get guessData ''fat''))),
            [SpoonacularGuess foodName])"
  using assms
  by (simp add: getNutritionSpoonacular_def io_run io_catch_def io_return_def)

lemma spoonacular_not_found:
  assumes "w (SpoonacularGuess foodName) = Inr guessData"
    and "\<not> truthy (js_and guessData
                   (js_or (js_get guessData ''calories'')
                          (JBool (js_get guessData ''calories'' = zero))))"
    and "w (SpoonacularIngredientSearch foodName) = Inr searchData"
    and "js_get searchData ''results'' = JArr []"
  shows "getNutritionSpoonacular rt w foodName =
           (Inl (Exn ''Spoonacular failed: Spoonacular: ingredient not found'' JUndefined),
            [SpoonacularGuess foodName, SpoonacularIngredientSearch foodName])"
  using assms
  by (simp add: getNutritionSpoonacular_def io_run io_catch_def io_throw_def Let_def
      js_and_def js_or_def js_length_def ToString_def js_get_opt_def nullish_def)

lemma spoonacular_record_complete:
  "fst (getNutritionSpoonacular rt w foodName) = Inr r \<Longrightarrow> complete_record r"
  by (auto simp: getNutritionSpoonacular_def fst_io_catch_throw fst_io_bind fst_io_call Let_def
      fst_io_throw fst_io_return fst_io_lift parseVal_number is_number_defined
      intro!: complete_nutrition_record js_or_zero_defined split: sum.splits if_splits)

lemma by_name_result:
  assumes "w (ChatNutritionByName foodName) = Inr response"
    and "message_content rt response = Inr (JStr reply)"
  shows "getNutritionFromOpenAIByName rt w foodName =
           (case brace_span reply of
              None \<Rightarrow> Inl (Exn ''OpenAI nutrition lookup failed'' JUndefined)
            | Some t \<Rightarrow>
                (case JSON_parse rt t of
                   Inl e \<Rightarrow> Inl (Exn ''OpenAI nutrition lookup failed'' JUndefined)
                 | Inr v \<Rightarrow> Inr v),
            [ChatNutritionByName foodName])"
proof -
  have out: "js_or (JStr reply) (JStr []) = JStr reply" by (simp add: js_or_def)
  have body:
    "io_bind (io_call w (ChatNutritionByName foodName)) (\<lambda>resp.
       io_bind (io_lift (message_content rt resp)) (\<lambda>content.
       io_lift (parse_brace_span rt
         (Exn ''OpenAI nutrition response not JSON'' JUndefined) (js_or content (JStr [])))))
     = (parse_brace_span rt (Exn ''OpenAI nutrition response not JSON'' JUndefined) (JStr reply),
        [ChatNutritionByName foodName])"
    using assms by (simp add: io_run out fst_io_lift snd_io_lift)
  show ?thesis
    unfolding getNutritionFromOpenAIByName_def body parse_brace_span_string
    by (simp add: io_catch_def io_throw_def split: option.splits sum.splits)
qed

lemma by_name_returns_parsed_object_unchanged:
  assumes "w (ChatNutritionByName foodName) = Inr response"
    and "message_content rt response = Inr (JStr reply)"
    and "brace_span reply = Some t" and "JSON_parse rt t = Inr v"
  shows "getNutritionFromOpenAIByName rt w foodName = (Inr v, [ChatNutritionByName foodName])"
  using by_name_result[where w = w, OF assms(1,2)] assms(3,4) by simp


text \<open>
  Claim C2. An upstream answer that holds no result makes the lookup fail with the
  adapter's error, for each of the six adapters, and in particular for the
  nutrition-analysis adapter (tab 1) when the answer carries no calories and no
  \<open>totalNutrients\<close>. The adapters of tabs 2 to 5 do so (\<open>edamam2_run\<close>,
  \<open>fatsecret_search_stage\<close>, \<open>openfoodfacts_no_product\<close>, \<open>spoonacular_not_found\<close>).
  The adapter of tab 1 has no such check: on an answer without calories and without
  \<open>totalNutrients\<close> it returns the record of four zeros.
\<close>

theorem edamam1_unrecognised_food_gives_zero_record:
  "example_world (EdamamNutritionData ''xyzzy'') =
     Inr (JObj [(''uri'', JStr ''http://www.edamam.com/ontologies/edamam.owl''),
                (''dietLabels'', JArr [])]) \<and>
   getNutritionEdamam1 example_world ''xyzzy'' =
     (Inr (nutrition_record zero zero zero zero), [EdamamNutritionData ''xyzzy''])"
  by (simp add: getNutritionEdamam1_def io_run Let_def io_catch_def io_return_def js_or_def
      js_and_def)


text \<open>
  Claim C3. A record returned by any of the six adapters has its four fields present,
  absent upstream nutrients being filled with zero, in particular for the adapter by
  name (tab 6) when the model's object omits one of the four keys. The records of tabs
  1 to 5 are complete (\<open>edamam1_record_complete\<close> and its siblings). The adapter by name
  applies no default: on a reply whose object has no \<open>fat\<close>, the record it returns has
  no \<open>fat\<close> field.
\<close>

theorem openai_by_name_omitted_key_stays_absent:
  \<open>example_world (ChatNutritionByName ''apple'') =
     Inr (chat_response ''{"calories":52,"protein":0.3,"carbs":14}'') \<and>
   getNutritionFromOpenAIByName example_rt example_world ''apple'' =
     (Inr (JObj [(''calories'', JNum (Fin 52)), (''protein'', JNum (Fin (3 / 10))),
                 (''carbs'', JNum (Fin 14))]),
      [ChatNutritionByName ''apple'']) \<and>
   js_get (JObj [(''calories'', JNum (Fin 52)), (''protein'', JNum (Fin (3 / 10))),
                 (''carbs'', JNum (Fin 14))]) ''fat'' = JUndefined \<and>
   \<not> complete_record (JObj [(''calories'', JNum (Fin 52)), (''protein'', JNum (Fin (3 / 10))),
                 (''carbs'', JNum (Fin 14))])\<close>
proof -
  have a: \<open>example_world (ChatNutritionByName ''apple'') =
     Inr (chat_response ''{"calories":52,"protein":0.3,"carbs":14}'')\<close>
    by simp
  have s: \<open>brace_span ''{"calories":52,"protein":0.3,"carbs":14}''
             = Some ''{"calories":52,"protein":0.3,"carbs":14}''\<close>
    by (simp add: brace_span_def slice_def)
  have p: \<open>JSON_parse example_rt ''{"calories":52,"protein":0.3,"carbs":14}'' =
     Inr (JObj [(''calories'', JNum (Fin 52)), (''protein'', JNum (Fin (3 / 10))),
                (''carbs'', JNum (Fin 14))])\<close>
    by (simp add: example_rt_def example_JSON_parse_def)
  show ?thesis
    unfolding by_name_result[where w = example_world, OF a example_content]
    using a s p by (simp add: complete_record_def)
qed


end
